theory Spec2Isabelle
  imports Main "HOL-Library.AList"
begin

section \<open>JavaScript values\<close>

text \<open>
  Values that flow through the client untyped (\<^verbatim>\<open>any\<close>, \<^verbatim>\<open>unknown\<close>, a decoded token
  payload, a parsed response body) are modelled by \<open>jsval\<close>. Numbers are JavaScript
  doubles in the program; the model carries the integral ones (identifiers, epoch seconds,
  HTTP statuses), which are exact below \<open>2^53\<close>. An object lists its own properties;
  \<open>JNative\<close> stands for a built-in function object reached through a prototype.
\<close>

datatype jsval =
    JUndefined
  | JNull
  | JBool bool
  | JNum int
  | JStr string
  | JArr "jsval list"
  | JObj "(string \<times> jsval) list"
  | JNative string

fun truthy :: "jsval \<Rightarrow> bool" where
  "truthy JUndefined = False"
| "truthy JNull = False"
| "truthy (JBool b) = b"
| "truthy (JNum n) = (n \<noteq> 0)"
| "truthy (JStr s) = (s \<noteq> [])"
| "truthy (JArr xs) = True"
| "truthy (JObj kvs) = True"
| "truthy (JNative f) = True"

text \<open>The operator \<^verbatim>\<open>a || b\<close>.\<close>

definition js_or :: "jsval \<Rightarrow> jsval \<Rightarrow> jsval" where
  "js_or a b = (if truthy a then a else b)"

text \<open>\<^verbatim>\<open>Array.isArray(v)\<close>.\<close>

fun isArray :: "jsval \<Rightarrow> bool" where
  "isArray (JArr xs) = True"
| "isArray v = False"

section \<open>Errors\<close>

text \<open>
  \<^verbatim>\<open>class ApiError extends Error\<close> with its four fields, and the values a
  \<^verbatim>\<open>throw\<close> or a rejected promise can carry: an \<open>ApiError\<close>, any other
  \<open>Error\<close> instance (its name and message), or a value that is no \<open>Error\<close>.
\<close>

record api_error =
  status :: int
  statusText :: string
  message :: string
  data :: jsval

datatype thrown =
    ApiError api_error
  | Error string string
  | Thrown jsval

section \<open>The platform\<close>

text \<open>
  The built-ins of the browser that the program calls are parameters of the model:
  \<^verbatim>\<open>atob\<close>, \<^verbatim>\<open>JSON.parse\<close> (both throw on bad input), \<^verbatim>\<open>JSON.stringify\<close>
  (\<open>None\<close> when it returns \<^verbatim>\<open>undefined\<close>), the conversions to string and to number
  of the values for which they are not a table lookup, the serialisation of
  \<^verbatim>\<open>URLSearchParams\<close> and its construction from a value that is no record, and the message the engine puts into a \<^verbatim>\<open>TypeError\<close>.
\<close>

record platform =
  atob :: "string \<Rightarrow> thrown + string"
  JSON_parse :: "string \<Rightarrow> thrown + jsval"
  JSON_stringify :: "jsval \<Rightarrow> string option"
  ToString_other :: "jsval \<Rightarrow> string"
  ToNumber_other :: "jsval \<Rightarrow> int option"
  URLSearchParams_toString :: "(string \<times> string) list \<Rightarrow> string"
  URLSearchParams_parse :: "jsval \<Rightarrow> (string \<times> string) list"
  TypeError_message :: string

text \<open>\<^verbatim>\<open>String(v)\<close> and string interpolation.\<close>

fun ToString :: "platform \<Rightarrow> jsval \<Rightarrow> string" where
  "ToString P (JStr s) = s"
| "ToString P JUndefined = ''undefined''"
| "ToString P JNull = ''null''"
| "ToString P (JBool b) = (if b then ''true'' else ''false'')"
| "ToString P v = ToString_other P v"

text \<open>The numeric conversion of an arithmetic operand; \<open>None\<close> is \<^verbatim>\<open>NaN\<close>.\<close>

fun ToNumber :: "platform \<Rightarrow> jsval \<Rightarrow> int option" where
  "ToNumber P (JNum n) = Some n"
| "ToNumber P JUndefined = None"
| "ToNumber P JNull = Some 0"
| "ToNumber P (JBool b) = Some (if b then 1 else 0)"
| "ToNumber P v = ToNumber_other P v"

text \<open>
  Reading a property \<^verbatim>\<open>v.k\<close>. On \<^verbatim>\<open>null\<close> and \<^verbatim>\<open>undefined\<close> it throws a
  \<^verbatim>\<open>TypeError\<close>. On an object it is the own property or \<^verbatim>\<open>undefined\<close>. Of the
  property names the program reads, only \<^verbatim>\<open>sub\<close> is inherited by a primitive
  (\<^verbatim>\<open>String.prototype.sub\<close>).
\<close>

fun get_prop :: "platform \<Rightarrow> jsval \<Rightarrow> string \<Rightarrow> thrown + jsval" where
  "get_prop P JUndefined k = Inl (Error ''TypeError'' (TypeError_message P))"
| "get_prop P JNull k = Inl (Error ''TypeError'' (TypeError_message P))"
| "get_prop P (JObj kvs) k = Inr (case map_of kvs k of None \<Rightarrow> JUndefined | Some v \<Rightarrow> v)"
| "get_prop P (JStr s) k = Inr (if k = ''sub'' then JNative ''String.prototype.sub'' else JUndefined)"
| "get_prop P v k = Inr JUndefined"

section \<open>Durable storage\<close>

text \<open>
  \<^verbatim>\<open>localStorage\<close> maps keys to strings. The wrapper \<^verbatim>\<open>storage\<close> stores values as
  JSON text and reads them back through \<^verbatim>\<open>JSON.parse\<close>; a missing key, an empty item
  and an item that does not parse all read as \<^verbatim>\<open>null\<close>. The browser's storage
  calls themselves are taken not to throw.
\<close>

type_synonym local_storage = "string \<rightharpoonup> string"

definition TOKEN :: string where
  "TOKEN = ''job_portal_token''"

definition USER :: string where
  "USER = ''job_portal_user''"

definition storage_get :: "platform \<Rightarrow> local_storage \<Rightarrow> string \<Rightarrow> jsval" where
  "storage_get P ls key =
     (case ls key of
        None \<Rightarrow> JNull
      | Some item \<Rightarrow>
          if item = [] then JNull
          else (case JSON_parse P item of Inl e \<Rightarrow> JNull | Inr v \<Rightarrow> v))"

definition storage_set :: "platform \<Rightarrow> local_storage \<Rightarrow> string \<Rightarrow> jsval \<Rightarrow> local_storage" where
  "storage_set P ls key v =
     ls(key \<mapsto> (case JSON_stringify P v of None \<Rightarrow> ''undefined'' | Some s \<Rightarrow> s))"

definition storage_remove :: "local_storage \<Rightarrow> string \<Rightarrow> local_storage" where
  "storage_remove ls key = ls(key := None)"

section \<open>Session manager\<close>

text \<open>\<^verbatim>\<open>dateUtils.isExpired\<close>: \<^verbatim>\<open>Date.now() >= expirationTime * 1000\<close>, with the clock
  in milliseconds. A comparison with \<^verbatim>\<open>NaN\<close> is false.\<close>

definition isExpired :: "platform \<Rightarrow> int \<Rightarrow> jsval \<Rightarrow> bool" where
  "isExpired P now expirationTime =
     (case ToNumber P expirationTime of None \<Rightarrow> False | Some e \<Rightarrow> now \<ge> e * 1000)"

text \<open>\<^verbatim>\<open>s.split(".")\<close>: the pieces between the dots, at least one.\<close>

fun split_dot :: "string \<Rightarrow> string list" where
  "split_dot [] = [[]]"
| "split_dot (c # cs) =
     (if c = CHR ''.'' then [] # split_dot cs
      else (case split_dot cs of [] \<Rightarrow> [[c]] | p # ps \<Rightarrow> (c # p) # ps))"

text \<open>\<^verbatim>\<open>token.split(".")[1]\<close>: \<^verbatim>\<open>undefined\<close> when there is no second piece.\<close>

definition payload_segment :: "string \<Rightarrow> jsval" where
  "payload_segment t = (case split_dot t of p # q # ps \<Rightarrow> JStr q | _ \<Rightarrow> JUndefined)"

text \<open>
  \<^verbatim>\<open>JSON.parse(atob(token.split(".")[1]))\<close>. A token that is not a string has no
  \<^verbatim>\<open>split\<close> function, so the call throws; \<^verbatim>\<open>atob\<close> converts its argument to a string.
\<close>

definition decode_payload :: "platform \<Rightarrow> jsval \<Rightarrow> thrown + jsval" where
  "decode_payload P token =
     (case token of
        JStr t \<Rightarrow>
          (case atob P (ToString P (payload_segment t)) of
             Inl e \<Rightarrow> Inl e
           | Inr bin \<Rightarrow> JSON_parse P bin)
      | _ \<Rightarrow> Inl (Error ''TypeError'' (TypeError_message P)))"

record auth_user =
  user_id :: jsval
  user_role :: jsval
  user_exp :: jsval

text \<open>The object literal \<^verbatim>\<open>{ id: payload.sub, role: payload.role, exp: payload.exp }\<close>.\<close>

definition make_authUser :: "platform \<Rightarrow> jsval \<Rightarrow> thrown + auth_user" where
  "make_authUser P payload =
     (case get_prop P payload ''sub'' of
        Inl e \<Rightarrow> Inl e
      | Inr sub \<Rightarrow>
          (case get_prop P payload ''role'' of
             Inl e \<Rightarrow> Inl e
           | Inr role \<Rightarrow>
               (case get_prop P payload ''exp'' of
                  Inl e \<Rightarrow> Inl e
                | Inr exp \<Rightarrow> Inr \<lparr>user_id = sub, user_role = role, user_exp = exp\<rparr>)))"

definition parse_token :: "platform \<Rightarrow> jsval \<Rightarrow> thrown + auth_user" where
  "parse_token P token =
     (case decode_payload P token of Inl e \<Rightarrow> Inl e | Inr payload \<Rightarrow> make_authUser P payload)"

text \<open>The state of \<^verbatim>\<open>AuthProvider\<close> together with the storage it reads and writes.\<close>

record auth_state =
  localStorage :: local_storage
  user :: "auth_user option"
  isLoading :: bool

definition isAuthenticated :: "platform \<Rightarrow> int \<Rightarrow> auth_state \<Rightarrow> bool" where
  "isAuthenticated P now s =
     (case user s of None \<Rightarrow> False | Some u \<Rightarrow> \<not> isExpired P now (user_exp u))"

definition clearAuthData :: "auth_state \<Rightarrow> auth_state" where
  "clearAuthData s =
     s\<lparr>localStorage := storage_remove (storage_remove (localStorage s) TOKEN) USER,
       user := None\<rparr>"

definition logout :: "auth_state \<Rightarrow> auth_state" where
  "logout s = clearAuthData s"

text \<open>
  A statement block leaves a state and either completes or throws.
  \<open>try_catch\<close> runs the handler on the state the body left; \<open>try_finally\<close> runs the
  finaliser on both exits and keeps the body's exit.
\<close>

type_synonym 'a exit = "(thrown + 'a)"

definition try_catch ::
  "'a exit \<times> 's \<Rightarrow> (thrown \<Rightarrow> 's \<Rightarrow> 'a exit \<times> 's) \<Rightarrow> 'a exit \<times> 's" where
  "try_catch body handler =
     (case body of (Inl e, s) \<Rightarrow> handler e s | (Inr v, s) \<Rightarrow> (Inr v, s))"

definition try_finally :: "'a exit \<times> 's \<Rightarrow> ('s \<Rightarrow> 's) \<Rightarrow> 'a exit \<times> 's" where
  "try_finally body finaliser = (case body of (r, s) \<Rightarrow> (r, finaliser s))"

text \<open>The inner \<^verbatim>\<open>try\<close> block of \<^verbatim>\<open>initializeAuth\<close>: parse, then expiry check.\<close>

definition initializeAuth_parse :: "platform \<Rightarrow> int \<Rightarrow> jsval \<Rightarrow> auth_state \<Rightarrow> unit exit \<times> auth_state" where
  "initializeAuth_parse P now token s =
     (case parse_token P token of
        Inl e \<Rightarrow> (Inl e, s)
      | Inr authUser \<Rightarrow>
          if isExpired P now (user_exp authUser) then (Inr (), clearAuthData s)
          else (Inr (), s\<lparr>user := Some authUser\<rparr>))"

definition initializeAuth :: "platform \<Rightarrow> int \<Rightarrow> auth_state \<Rightarrow> unit exit \<times> auth_state" where
  "initializeAuth P now s =
     try_finally
       (try_catch
          (let token = storage_get P (localStorage s) TOKEN in
           if \<not> truthy token then (Inr (), s\<lparr>isLoading := False\<rparr>)
           else try_catch (initializeAuth_parse P now token s)
                  (\<lambda>error s'. (Inr (), clearAuthData s')))
          (\<lambda>error s'. (Inr (), s')))
       (\<lambda>s'. s'\<lparr>isLoading := False\<rparr>)"

section \<open>Typed request pipeline\<close>

text \<open>
  A request body as \<^verbatim>\<open>fetch\<close> receives it: none, a \<^verbatim>\<open>FormData\<close> (sent as
  multipart), a \<^verbatim>\<open>URLSearchParams\<close> (sent URL-encoded) or a string.
\<close>

datatype upload = File string string

datatype form_entry = Field string | Blob upload

datatype body_init =
    NoBody
  | FormData "(string \<times> form_entry) list"
  | URLSearchParams "(string \<times> string) list"
  | Text string

record request_init =
  http_method :: string
  headers :: "string \<rightharpoonup> string"
  body :: body_init

record response =
  resp_status :: int
  resp_statusText :: string
  resp_contentType :: "string option"
  resp_body :: string

text \<open>\<^verbatim>\<open>response.ok\<close>: the status is in the range 200 to 299.\<close>

definition ok :: "response \<Rightarrow> bool" where
  "ok r = (200 \<le> resp_status r \<and> resp_status r \<le> 299)"

text \<open>
  What the network does with a request: it answers after some milliseconds, it fails
  after some milliseconds with the value \<^verbatim>\<open>fetch\<close> rejects with, or it never settles.
\<close>

datatype net_outcome =
    Responds nat response
  | Fails nat thrown
  | Hangs

record environment =
  baseURL :: string
  network :: "string \<Rightarrow> request_init \<Rightarrow> net_outcome"
  AbortError_message :: string

definition API_CONFIG_timeout :: nat where
  "API_CONFIG_timeout = 10000"

definition API_CONFIG_headers :: "string \<rightharpoonup> string" where
  "API_CONFIG_headers = [''Content-Type'' \<mapsto> ''application/json'']"

text \<open>
  \<^verbatim>\<open>fetch\<close> under the abort signal that a timer fires after \<open>API_CONFIG_timeout\<close>:
  what has not settled by then rejects with an \<^verbatim>\<open>AbortError\<close>. The timer is cleared
  once the response has arrived.
\<close>

datatype fetch_result = Resolved response | Rejected thrown

definition fetch :: "environment \<Rightarrow> string \<Rightarrow> request_init \<Rightarrow> fetch_result" where
  "fetch E url config =
     (case network E url config of
        Responds t r \<Rightarrow>
          if t < API_CONFIG_timeout then Resolved r
          else Rejected (Error ''AbortError'' (AbortError_message E))
      | Fails t e \<Rightarrow>
          if t < API_CONFIG_timeout then Rejected e
          else Rejected (Error ''AbortError'' (AbortError_message E))
      | Hangs \<Rightarrow> Rejected (Error ''AbortError'' (AbortError_message E)))"

definition getAuthHeaders :: "platform \<Rightarrow> local_storage \<Rightarrow> (string \<rightharpoonup> string)" where
  "getAuthHeaders P ls =
     (let token = storage_get P ls TOKEN in
      if truthy token then [''Authorization'' \<mapsto> ''Bearer '' @ ToString P token]
      else Map.empty)"

text \<open>\<^verbatim>\<open>s.includes(p)\<close>.\<close>

fun starts_with :: "string \<Rightarrow> string \<Rightarrow> bool" where
  "starts_with s [] = True"
| "starts_with [] (p # ps) = False"
| "starts_with (c # cs) (p # ps) = (c = p \<and> starts_with cs ps)"

fun str_includes :: "string \<Rightarrow> string \<Rightarrow> bool" where
  "str_includes [] p = (p = [])"
| "str_includes (c # cs) p = (starts_with (c # cs) p \<or> str_includes cs p)"

text \<open>
  \<^verbatim>\<open>handleResponse\<close>. On a status that is not ok the error body is parsed, an
  unparseable one replaced by \<^verbatim>\<open>{}\<close>, and an \<open>ApiError\<close> is thrown whose message is
  \<^verbatim>\<open>errorData.message || response.statusText\<close>, converted by the \<^verbatim>\<open>Error\<close>
  constructor. Reading \<^verbatim>\<open>message\<close> from a body that parsed to \<^verbatim>\<open>null\<close> throws.
\<close>

definition handleResponse :: "platform \<Rightarrow> response \<Rightarrow> thrown + jsval" where
  "handleResponse P r =
     (if \<not> ok r then
        (let errorData = (case JSON_parse P (resp_body r) of Inl e \<Rightarrow> JObj [] | Inr v \<Rightarrow> v) in
         case get_prop P errorData ''message'' of
           Inl e \<Rightarrow> Inl e
         | Inr m \<Rightarrow>
             Inl (ApiError \<lparr>status = resp_status r, statusText = resp_statusText r,
                    message = ToString P (js_or m (JStr (resp_statusText r))),
                    data = errorData\<rparr>))
      else
        (case resp_contentType r of
           None \<Rightarrow> Inr (JStr (resp_body r))
         | Some contentType \<Rightarrow>
             if contentType \<noteq> [] \<and> str_includes contentType ''application/json''
             then JSON_parse P (resp_body r)
             else Inr (JStr (resp_body r))))"

text \<open>The request configuration that \<^verbatim>\<open>request\<close> hands to \<^verbatim>\<open>fetch\<close>.\<close>

definition request_config :: "platform \<Rightarrow> local_storage \<Rightarrow> request_init \<Rightarrow> request_init" where
  "request_config P ls options =
     (let config = options\<lparr>headers := API_CONFIG_headers ++ getAuthHeaders P ls ++ headers options\<rparr>
      in case body options of
           FormData parts \<Rightarrow> config\<lparr>headers := (headers config)(''Content-Type'' := None)\<rparr>
         | _ \<Rightarrow> config)"

text \<open>The \<^verbatim>\<open>catch\<close> block of \<^verbatim>\<open>request\<close>.\<close>

definition request_catch :: "thrown \<Rightarrow> thrown" where
  "request_catch error =
     (case error of
        ApiError e \<Rightarrow> ApiError e
      | Error name msg \<Rightarrow>
          if name = ''AbortError''
          then ApiError \<lparr>status = 408, statusText = ''Request Timeout'',
                 message = ''Request timed out'', data = JUndefined\<rparr>
          else ApiError \<lparr>status = 0, statusText = ''Network Error'', message = msg, data = JUndefined\<rparr>
      | Thrown v \<Rightarrow>
          ApiError \<lparr>status = 0, statusText = ''Unknown Error'',
            message = ''An unknown error occurred'', data = JUndefined\<rparr>)"

text \<open>
  \<^verbatim>\<open>request\<close>. Inside the \<^verbatim>\<open>try\<close> block only \<^verbatim>\<open>fetch\<close> is awaited; the promise of
  \<^verbatim>\<open>handleResponse\<close> is returned without \<^verbatim>\<open>await\<close>, so what it rejects with
  settles the caller's promise directly and does not pass through the \<^verbatim>\<open>catch\<close> block.
\<close>

definition request ::
  "platform \<Rightarrow> environment \<Rightarrow> local_storage \<Rightarrow> string \<Rightarrow> request_init \<Rightarrow> thrown + jsval" where
  "request P E ls endpoint options =
     (case fetch E (baseURL E @ endpoint) (request_config P ls options) of
        Rejected error \<Rightarrow> Inl (request_catch error)
      | Resolved r \<Rightarrow> handleResponse P r)"

text \<open>
  \<^verbatim>\<open>get\<close>: the loop over \<^verbatim>\<open>Object.entries(params)\<close> that fills \<^verbatim>\<open>stringParams\<close>,
  and the path with the serialised parameters appended.
\<close>

text \<open>
  The assignment \<^verbatim>\<open>obj[key] = str\<close> to a plain object of strings. For the key
  \<^verbatim>\<open>__proto__\<close> it runs the setter inherited from \<^verbatim>\<open>Object.prototype\<close>, which
  ignores a string and creates no property.
\<close>

definition assign :: "(string \<times> string) list \<Rightarrow> string \<Rightarrow> string \<Rightarrow> (string \<times> string) list" where
  "assign obj key str = (if key = ''__proto__'' then obj else AList.update key str obj)"

definition stringParams :: "platform \<Rightarrow> (string \<times> jsval) list \<Rightarrow> (string \<times> string) list" where
  "stringParams P params =
     foldl (\<lambda>acc (key, v).
              if v \<noteq> JUndefined \<and> v \<noteq> JNull then assign acc key (ToString P v) else acc)
       [] params"

definition get_endpoint :: "platform \<Rightarrow> string \<Rightarrow> (string \<times> jsval) list option \<Rightarrow> string" where
  "get_endpoint P endpoint params =
     (case params of
        Some ps \<Rightarrow> endpoint @ ''?'' @ URLSearchParams_toString P (stringParams P ps)
      | None \<Rightarrow> endpoint)"

definition HttpClient_get ::
  "platform \<Rightarrow> environment \<Rightarrow> local_storage \<Rightarrow> string \<Rightarrow> (string \<times> jsval) list option
     \<Rightarrow> thrown + jsval" where
  "HttpClient_get P E ls endpoint params =
     request P E ls (get_endpoint P endpoint params)
       \<lparr>http_method = ''GET'', headers = Map.empty, body = NoBody\<rparr>"

text \<open>
  \<^verbatim>\<open>post\<close>. Its \<^verbatim>\<open>data\<close> argument is a \<^verbatim>\<open>FormData\<close>, a \<^verbatim>\<open>URLSearchParams\<close> or any
  other value; \<^verbatim>\<open>new URLSearchParams(record)\<close> lists the record's entries, each value
  converted to a string.
\<close>

datatype post_data =
    IsFormData "(string \<times> form_entry) list"
  | IsURLSearchParams "(string \<times> string) list"
  | IsValue jsval

definition new_URLSearchParams :: "platform \<Rightarrow> (string \<times> jsval) list \<Rightarrow> (string \<times> string) list" where
  "new_URLSearchParams P kvs = map (\<lambda>(k, v). (k, ToString P v)) kvs"

definition post_options :: "platform \<Rightarrow> post_data \<Rightarrow> string option \<Rightarrow> request_init" where
  "post_options P d contentType =
     (case d of
        IsFormData parts \<Rightarrow> \<lparr>http_method = ''POST'', headers = Map.empty, body = FormData parts\<rparr>
      | IsURLSearchParams ps \<Rightarrow>
          if contentType = Some ''application/x-www-form-urlencoded''
          then \<lparr>http_method = ''POST'', headers = [''Content-Type'' \<mapsto> ''application/x-www-form-urlencoded''],
                 body = URLSearchParams ps\<rparr>
          else \<lparr>http_method = ''POST'', headers = Map.empty,
                 body = (case JSON_stringify P (JObj []) of None \<Rightarrow> NoBody | Some s \<Rightarrow> Text s)\<rparr>
      | IsValue v \<Rightarrow>
          if contentType = Some ''application/x-www-form-urlencoded''
          then \<lparr>http_method = ''POST'', headers = [''Content-Type'' \<mapsto> ''application/x-www-form-urlencoded''],
                 body = URLSearchParams
                          (case v of JObj kvs \<Rightarrow> new_URLSearchParams P kvs
                                   | _ \<Rightarrow> URLSearchParams_parse P v)\<rparr>
          else \<lparr>http_method = ''POST'', headers = Map.empty,
                 body = (case JSON_stringify P v of None \<Rightarrow> NoBody | Some s \<Rightarrow> Text s)\<rparr>)"

definition HttpClient_post ::
  "platform \<Rightarrow> environment \<Rightarrow> local_storage \<Rightarrow> string \<Rightarrow> post_data \<Rightarrow> string option
     \<Rightarrow> thrown + jsval" where
  "HttpClient_post P E ls endpoint d contentType =
     request P E ls endpoint (post_options P d contentType)"

text \<open>\<^verbatim>\<open>put\<close>: the data is always sent as JSON text.\<close>

definition HttpClient_put ::
  "platform \<Rightarrow> environment \<Rightarrow> local_storage \<Rightarrow> string \<Rightarrow> jsval \<Rightarrow> thrown + jsval" where
  "HttpClient_put P E ls endpoint d =
     request P E ls endpoint
       \<lparr>http_method = ''PUT'', headers = Map.empty,
        body = (case JSON_stringify P d of None \<Rightarrow> NoBody | Some s \<Rightarrow> Text s)\<rparr>"

text \<open>\<^verbatim>\<open>patch\<close>: the three branches of \<^verbatim>\<open>post\<close> with the other verb.\<close>

definition patch_options :: "platform \<Rightarrow> post_data \<Rightarrow> string option \<Rightarrow> request_init" where
  "patch_options P d contentType =
     (case d of
        IsFormData parts \<Rightarrow> \<lparr>http_method = ''PATCH'', headers = Map.empty, body = FormData parts\<rparr>
      | IsURLSearchParams ps \<Rightarrow>
          if contentType = Some ''application/x-www-form-urlencoded''
          then \<lparr>http_method = ''PATCH'', headers = [''Content-Type'' \<mapsto> ''application/x-www-form-urlencoded''],
                 body = URLSearchParams ps\<rparr>
          else \<lparr>http_method = ''PATCH'', headers = Map.empty,
                 body = (case JSON_stringify P (JObj []) of None \<Rightarrow> NoBody | Some s \<Rightarrow> Text s)\<rparr>
      | IsValue v \<Rightarrow>
          if contentType = Some ''application/x-www-form-urlencoded''
          then \<lparr>http_method = ''PATCH'', headers = [''Content-Type'' \<mapsto> ''application/x-www-form-urlencoded''],
                 body = URLSearchParams
                          (case v of JObj kvs \<Rightarrow> new_URLSearchParams P kvs
                                   | _ \<Rightarrow> URLSearchParams_parse P v)\<rparr>
          else \<lparr>http_method = ''PATCH'', headers = Map.empty,
                 body = (case JSON_stringify P v of None \<Rightarrow> NoBody | Some s \<Rightarrow> Text s)\<rparr>)"

definition HttpClient_patch ::
  "platform \<Rightarrow> environment \<Rightarrow> local_storage \<Rightarrow> string \<Rightarrow> post_data \<Rightarrow> string option
     \<Rightarrow> thrown + jsval" where
  "HttpClient_patch P E ls endpoint d contentType =
     request P E ls endpoint (patch_options P d contentType)"

definition HttpClient_delete ::
  "platform \<Rightarrow> environment \<Rightarrow> local_storage \<Rightarrow> string \<Rightarrow> thrown + jsval" where
  "HttpClient_delete P E ls endpoint =
     request P E ls endpoint \<lparr>http_method = ''DELETE'', headers = Map.empty, body = NoBody\<rparr>"

section \<open>Domain API modules\<close>

text \<open>Sequencing of steps that may throw.\<close>

definition bind :: "thrown + 'a \<Rightarrow> ('a \<Rightarrow> thrown + 'b) \<Rightarrow> thrown + 'b" where
  "bind m f = (case m of Inl e \<Rightarrow> Inl e | Inr v \<Rightarrow> f v)"

text \<open>
  \<^verbatim>\<open>transformJob\<close>; \<open>nowISO\<close> is \<^verbatim>\<open>new Date().toISOString()\<close>. The properties are
  read in the order of the object literal.
\<close>

definition transformJob :: "platform \<Rightarrow> string \<Rightarrow> jsval \<Rightarrow> thrown + jsval" where
  "transformJob P nowISO rawJob =
     bind (get_prop P rawJob ''id'') (\<lambda>id.
     bind (get_prop P rawJob ''title'') (\<lambda>title.
     bind (get_prop P rawJob ''description'') (\<lambda>description.
     bind (get_prop P rawJob ''salary'') (\<lambda>salary.
     bind (get_prop P rawJob ''status'') (\<lambda>status.
     bind (get_prop P rawJob ''jobLocation'') (\<lambda>jobLocation.
     bind (get_prop P rawJob ''location'') (\<lambda>location.
     bind (get_prop P rawJob ''userId'') (\<lambda>userId.
     bind (get_prop P rawJob ''employerName'') (\<lambda>employerName.
     bind (get_prop P rawJob ''createdAt'') (\<lambda>createdAt.
     bind (get_prop P rawJob ''updatedAt'') (\<lambda>updatedAt.
     bind (get_prop P rawJob ''_count'') (\<lambda>count.
     Inr (JObj
       [(''id'', id),
        (''title'', title),
        (''description'', description),
        (''salary'', salary),
        (''status'', status),
        (''jobLocation'', js_or (js_or jobLocation location) JNull),
        (''employerId'', userId),
        (''employerName'', js_or employerName (JStr ''Unknown Employer'')),
        (''createdAt'', js_or createdAt (JStr nowISO)),
        (''updatedAt'', js_or updatedAt (JStr nowISO)),
        (''_count'', count)])))))))))))))"

text \<open>The object literal that wraps a response into the \<^verbatim>\<open>ApiResponse\<close> shape.\<close>

definition ApiResponse :: "platform \<Rightarrow> jsval \<Rightarrow> (jsval \<Rightarrow> thrown + jsval) \<Rightarrow> thrown + jsval" where
  "ApiResponse P response f =
     bind (get_prop P response ''status'') (\<lambda>status.
     bind (get_prop P response ''message'') (\<lambda>msg.
     bind (get_prop P response ''data'') (\<lambda>d.
     bind (f d) (\<lambda>d'.
     bind (get_prop P response ''hasPrev'') (\<lambda>hasPrev.
     bind (get_prop P response ''hasNext'') (\<lambda>hasNext.
     bind (get_prop P response ''totalPages'') (\<lambda>totalPages.
     Inr (JObj
       [(''status'', js_or status (JStr ''success'')),
        (''message'', js_or msg (JStr [])),
        (''data'', d'),
        (''hasPrev'', hasPrev),
        (''hasNext'', hasNext),
        (''totalPages'', totalPages)]))))))))"

text \<open>\<^verbatim>\<open>applicationsApi.getAll\<close>.\<close>

definition applicationsApi_getAll ::
  "platform \<Rightarrow> environment \<Rightarrow> local_storage \<Rightarrow> thrown + jsval" where
  "applicationsApi_getAll P E ls =
     bind (HttpClient_get P E ls ''/applications'' None) (\<lambda>response.
       if isArray response then Inr response
       else bind (get_prop P response ''data'') (\<lambda>d.
              Inr (js_or (js_or d response) (JArr []))))"

text \<open>\<^verbatim>\<open>applicationsApi.create\<close>: the form it builds, the path, and the call.\<close>

record CreateApplicationData =
  description :: string
  resume :: "upload option"

definition create_formData :: "CreateApplicationData \<Rightarrow> (string \<times> form_entry) list" where
  "create_formData d =
     [(''description'', Field (description d))] @
     (case resume d of None \<Rightarrow> [] | Some f \<Rightarrow> [(''resume'', Blob f)])"

definition create_endpoint :: "platform \<Rightarrow> int \<Rightarrow> string" where
  "create_endpoint P jobId = ''/applications/jobs/'' @ ToString P (JNum jobId)"

definition applicationsApi_create ::
  "platform \<Rightarrow> environment \<Rightarrow> local_storage \<Rightarrow> int \<Rightarrow> CreateApplicationData \<Rightarrow> thrown + jsval" where
  "applicationsApi_create P E ls jobId d =
     bind (HttpClient_post P E ls (create_endpoint P jobId) (IsFormData (create_formData d)) None)
       (\<lambda>response. ApiResponse P response Inr)"

text \<open>\<^verbatim>\<open>authApi.login\<close>.\<close>

record LoginCredentials =
  email :: string
  password :: string

definition authApi_login ::
  "platform \<Rightarrow> environment \<Rightarrow> local_storage \<Rightarrow> LoginCredentials \<Rightarrow> thrown + jsval" where
  "authApi_login P E ls credentials =
     HttpClient_post P E ls ''/auth/login''
       (IsValue (JObj [(''email'', JStr (email credentials)),
                       (''password'', JStr (password credentials))]))
       (Some ''application/x-www-form-urlencoded'')"

text \<open>\<^verbatim>\<open>handleApiError\<close>: the message, and the storage it leaves.\<close>

definition handleApiError :: "thrown \<Rightarrow> local_storage \<Rightarrow> string \<times> local_storage" where
  "handleApiError error ls =
     (case error of
        ApiError e \<Rightarrow>
          if status e = 401 then
            (''Your session has expired. Please log in again.'',
             storage_remove (storage_remove ls TOKEN) USER)
          else if status e = 403 then
            (''You do not have permission to perform this action.'', ls)
          else if status e = 404 then
            (''The requested resource was not found.'', ls)
          else if status e = 409 then
            (if message e \<noteq> [] then message e
             else ''A conflict occurred. This item may already exist.'', ls)
          else if status e = 422 then
            (if message e \<noteq> [] then message e
             else ''Please check your input and try again.'', ls)
          else if status e = 429 then
            (''Too many requests. Please try again later.'', ls)
          else if status e = 500 then
            (''A server error occurred. Please try again later.'', ls)
          else
            (if message e \<noteq> [] then message e else ''An unexpected error occurred.'', ls)
      | Error name msg \<Rightarrow> (msg, ls)
      | Thrown v \<Rightarrow> (''An unexpected error occurred. Please try again.'', ls))"

section \<open>Hooks and session operations that call the API\<close>

text \<open>The caller-facing result \<^verbatim>\<open>{ success, message, application }\<close>; a key the object
  literal leaves out reads as \<^verbatim>\<open>undefined\<close>.\<close>

record op_result =
  success :: bool
  result_message :: string
  application :: jsval

record mutations_state =
  storage :: local_storage
  loading :: bool

text \<open>\<^verbatim>\<open>useApplicationMutations().createApplication\<close>.\<close>

definition createApplication ::
  "platform \<Rightarrow> environment \<Rightarrow> int \<Rightarrow> CreateApplicationData \<Rightarrow> mutations_state
     \<Rightarrow> op_result exit \<times> mutations_state" where
  "createApplication P E jobId d s =
     try_finally
       (try_catch
          (let s1 = s\<lparr>loading := True\<rparr> in
           case applicationsApi_create P E (storage s1) jobId d of
             Inl e \<Rightarrow> (Inl e, s1)
           | Inr response \<Rightarrow>
               (case get_prop P response ''data'' of
                  Inl e \<Rightarrow> (Inl e, s1)
                | Inr app \<Rightarrow>
                    (Inr \<lparr>success = True,
                          result_message = ''Application submitted successfully!'',
                          application = app\<rparr>, s1)))
          (\<lambda>error s'.
             case handleApiError error (storage s') of
               (errorMessage, ls') \<Rightarrow>
                 (Inr \<lparr>success = False, result_message = errorMessage, application = JUndefined\<rparr>,
                  s'\<lparr>storage := ls'\<rparr>)))
       (\<lambda>s'. s'\<lparr>loading := False\<rparr>)"

text \<open>\<^verbatim>\<open>login\<close> of the session manager. The token is stored first; the inner
  \<^verbatim>\<open>try\<close> block then parses it.\<close>

definition login_parse ::
  "platform \<Rightarrow> jsval \<Rightarrow> jsval \<Rightarrow> auth_state \<Rightarrow> op_result exit \<times> auth_state" where
  "login_parse P response accessToken s =
     (case parse_token P accessToken of
        Inl e \<Rightarrow> (Inl e, s)
      | Inr authUser \<Rightarrow>
          (let s1 = s\<lparr>user := Some authUser\<rparr> in
           case get_prop P response ''user'' of
             Inl e \<Rightarrow> (Inl e, s1)
           | Inr u \<Rightarrow>
               (Inr \<lparr>success = True, result_message = ''Login successful!'', application = JUndefined\<rparr>,
                if truthy u then s1\<lparr>localStorage := storage_set P (localStorage s1) USER u\<rparr>
                else s1)))"

definition login ::
  "platform \<Rightarrow> environment \<Rightarrow> LoginCredentials \<Rightarrow> auth_state \<Rightarrow> op_result exit \<times> auth_state" where
  "login P E credentials s =
     try_finally
       (try_catch
          (let s1 = s\<lparr>isLoading := True\<rparr> in
           case authApi_login P E (localStorage s1) credentials of
             Inl e \<Rightarrow> (Inl e, s1)
           | Inr response \<Rightarrow>
               (case get_prop P response ''accessToken'' of
                  Inl e \<Rightarrow> (Inl e, s1)
                | Inr accessToken \<Rightarrow>
                    if truthy accessToken then
                      (let s2 = s1\<lparr>localStorage := storage_set P (localStorage s1) TOKEN accessToken\<rparr>
                       in try_catch (login_parse P response accessToken s2)
                            (\<lambda>error s'.
                               (Inr \<lparr>success = False, result_message = ''Invalid token received'',
                                     application = JUndefined\<rparr>, s')))
                    else
                      (Inr \<lparr>success = False, result_message = ''No access token received'',
                            application = JUndefined\<rparr>, s1)))
          (\<lambda>error s'.
             case handleApiError error (localStorage s') of
               (msg, ls') \<Rightarrow>
                 (Inr \<lparr>success = False, result_message = msg, application = JUndefined\<rparr>,
                  s'\<lparr>localStorage := ls'\<rparr>)))
       (\<lambda>s'. s'\<lparr>isLoading := False\<rparr>)"

section \<open>A sample platform and sample inputs\<close>

text \<open>
  The examples below run the model on a platform that agrees with a browser on the
  inputs they use. Its \<^verbatim>\<open>atob\<close> knows the base64 text of two token payloads and
  rejects every other text; its \<^verbatim>\<open>JSON.parse\<close> knows those payloads, a few response
  bodies and the JSON texts of plain strings, and rejects every other text.
\<close>

definition live_segment :: string where
  "live_segment = ''eyJzdWIiOjcsInJvbGUiOiJTRUVLRVIiLCJleHAiOjIwMDAwMDAwMDB9''"

definition live_text :: string where
  \<open>live_text = ''{"sub":7,"role":"SEEKER","exp":2000000000}''\<close>

definition live_payload :: jsval where
  "live_payload = JObj [(''sub'', JNum 7), (''role'', JStr ''SEEKER''), (''exp'', JNum 2000000000)]"

definition stale_segment :: string where
  "stale_segment = ''eyJzdWIiOjcsInJvbGUiOiJTRUVLRVIiLCJleHAiOjEwMDAwMDAwMDB9''"

definition stale_text :: string where
  \<open>stale_text = ''{"sub":7,"role":"SEEKER","exp":1000000000}''\<close>

definition stale_payload :: jsval where
  "stale_payload = JObj [(''sub'', JNum 7), (''role'', JStr ''SEEKER''), (''exp'', JNum 1000000000)]"

definition login_body :: string where
  \<open>login_body = ''{"accessToken":"not-a-token"}''\<close>

definition wrapped_body :: string where
  \<open>wrapped_body = ''{"data":[]}''\<close>

definition conflict_body :: string where
  \<open>conflict_body = ''{"message":"Application already exists","statusCode":409}''\<close>

definition sample_atob :: "string \<Rightarrow> thrown + string" where
  "sample_atob txt =
     (if txt = live_segment then Inr live_text
      else if txt = stale_segment then Inr stale_text
      else Inl (Error ''InvalidCharacterError'' ''The string to be decoded is not correctly encoded.''))"

definition quote :: "string \<Rightarrow> string" where
  "quote str = [CHR 0x22] @ str @ [CHR 0x22]"

definition unquote :: "string \<Rightarrow> string option" where
  "unquote txt =
     (case txt of
        [] \<Rightarrow> None
      | c # rest \<Rightarrow>
          if c = CHR 0x22 \<and> rest \<noteq> [] \<and> last rest = CHR 0x22
             \<and> CHR 0x22 \<notin> set (butlast rest) \<and> CHR 0x5C \<notin> set (butlast rest)
          then Some (butlast rest) else None)"

definition sample_JSON_parse :: "string \<Rightarrow> thrown + jsval" where
  "sample_JSON_parse txt =
     (if txt = live_text then Inr live_payload
      else if txt = stale_text then Inr stale_payload
      else if txt = login_body then Inr (JObj [(''accessToken'', JStr ''not-a-token'')])
      else if txt = wrapped_body then Inr (JObj [(''data'', JArr [])])
      else if txt = conflict_body
        then Inr (JObj [(''message'', JStr ''Application already exists''), (''statusCode'', JNum 409)])
      else if txt = ''[]'' then Inr (JArr [])
      else if txt = ''null'' then Inr JNull
      else (case unquote txt of
              Some str \<Rightarrow> Inr (JStr str)
            | None \<Rightarrow> Inl (Error ''SyntaxError'' ''Unexpected token'')))"

fun digit :: "nat \<Rightarrow> char" where
  "digit n = ''0123456789'' ! (n mod 10)"

fun decimal :: "nat \<Rightarrow> string" where
  "decimal n = (if n < 10 then [digit n] else decimal (n div 10) @ [digit n])"

declare decimal.simps [simp del]

definition show_int :: "int \<Rightarrow> string" where
  "show_int n = (if n < 0 then ''-'' @ decimal (nat (- n)) else decimal (nat n))"

fun join :: "string \<Rightarrow> string list \<Rightarrow> string" where
  "join sep [] = []"
| "join sep [x] = x"
| "join sep (x # y # ys) = x @ sep @ join sep (y # ys)"

text \<open>\<^verbatim>\<open>JSON.stringify\<close> and the string conversion, for strings that need no escapes.\<close>

fun sample_JSON_stringify :: "jsval \<Rightarrow> string option" where
  "sample_JSON_stringify JUndefined = None"
| "sample_JSON_stringify (JNative f) = None"
| "sample_JSON_stringify JNull = Some ''null''"
| "sample_JSON_stringify (JBool b) = Some (if b then ''true'' else ''false'')"
| "sample_JSON_stringify (JNum n) = Some (show_int n)"
| "sample_JSON_stringify (JStr str) = Some (quote str)"
| "sample_JSON_stringify (JArr xs) =
     Some (''['' @ join '',''
        (map (\<lambda>x. case sample_JSON_stringify x of None \<Rightarrow> ''null'' | Some t \<Rightarrow> t) xs) @ '']'')"
| "sample_JSON_stringify (JObj kvs) =
     Some (''{'' @ join '',''
        (concat (map (\<lambda>kv. case sample_JSON_stringify (snd kv) of
                              None \<Rightarrow> []
                            | Some t \<Rightarrow> [quote (fst kv) @ '':'' @ t]) kvs)) @ ''}'')"

fun sample_ToString :: "jsval \<Rightarrow> string" where
  "sample_ToString JUndefined = ''undefined''"
| "sample_ToString JNull = ''null''"
| "sample_ToString (JBool b) = (if b then ''true'' else ''false'')"
| "sample_ToString (JNum n) = show_int n"
| "sample_ToString (JStr str) = str"
| "sample_ToString (JArr xs) =
     join '','' (map (\<lambda>x. if x = JUndefined \<or> x = JNull then [] else sample_ToString x) xs)"
| "sample_ToString (JObj kvs) = ''[object Object]''"
| "sample_ToString (JNative f) = ''function '' @ f @ ''() { [native code] }''"

text \<open>The serialisation of \<^verbatim>\<open>URLSearchParams\<close>, for names and values that need no
  percent-encoding.\<close>

fun sample_URLSearchParams_toString :: "(string \<times> string) list \<Rightarrow> string" where
  "sample_URLSearchParams_toString [] = []"
| "sample_URLSearchParams_toString [(k, v)] = k @ ''='' @ v"
| "sample_URLSearchParams_toString ((k, v) # kvs) =
     k @ ''='' @ v @ ''&'' @ sample_URLSearchParams_toString kvs"

definition sample_platform :: platform where
  "sample_platform =
     \<lparr>atob = sample_atob,
      JSON_parse = sample_JSON_parse,
      JSON_stringify = sample_JSON_stringify,
      ToString_other = sample_ToString,
      ToNumber_other = (\<lambda>v. None),
      URLSearchParams_toString = sample_URLSearchParams_toString,
      URLSearchParams_parse = (\<lambda>v. []),
      TypeError_message = ''Cannot read properties of null''\<rparr>"

text \<open>An environment whose network gives every request the same outcome.\<close>

definition sample_environment :: "net_outcome \<Rightarrow> environment" where
  "sample_environment outcome =
     \<lparr>baseURL = ''https://job-portal-api-nest.onrender.com'',
      network = (\<lambda>url config. outcome),
      AbortError_message = ''The operation was aborted.''\<rparr>"

text \<open>A clock reading in milliseconds, between the two sample expiry instants.\<close>

definition sample_now :: int where
  "sample_now = 1700000000000"

definition stored :: "string \<Rightarrow> auth_state" where
  "stored item = \<lparr>localStorage = [TOKEN \<mapsto> item], user = None, isLoading = True\<rparr>"

definition live_token :: string where
  "live_token = ''h.'' @ live_segment @ ''.s''"

definition stale_token :: string where
  "stale_token = ''h.'' @ stale_segment @ ''.s''"

definition json_response :: "string \<Rightarrow> net_outcome" where
  "json_response txt =
     Responds 120 \<lparr>resp_status = 200, resp_statusText = ''OK'',
                   resp_contentType = Some ''application/json; charset=utf-8'', resp_body = txt\<rparr>"

definition login_state :: auth_state where
  "login_state = \<lparr>localStorage = Map.empty, user = None, isLoading = False\<rparr>"

definition sample_credentials :: LoginCredentials where
  "sample_credentials = \<lparr>email = ''ann@example.org'', password = ''Secret123''\<rparr>"

definition sample_filters :: "(string \<times> jsval) list" where
  "sample_filters =
     [(''status'', JStr ''ACTIVE''), (''search'', JStr []), (''page'', JNull), (''limit'', JUndefined)]"

definition raw_job_employerId :: jsval where
  "raw_job_employerId =
     JObj [(''id'', JNum 1), (''title'', JStr ''Cook''), (''description'', JStr ''Line cook''),
           (''status'', JStr ''ACTIVE''), (''employerId'', JNum 7)]"

definition raw_job_userId :: jsval where
  "raw_job_userId =
     JObj [(''id'', JNum 1), (''title'', JStr ''Cook''), (''description'', JStr ''Line cook''),
           (''status'', JStr ''ACTIVE''), (''userId'', JNum 7)]"

definition sample_nowISO :: string where
  "sample_nowISO = ''2023-11-14T22:13:20.000Z''"

definition expired_session :: thrown where
  "expired_session = ApiError \<lparr>status = 401, statusText = ''Unauthorized'',
                        message = ''Unauthorized'', data = JObj []\<rparr>"

definition not_found :: thrown where
  "not_found = ApiError \<lparr>status = 404, statusText = ''Not Found'', message = [], data = JObj []\<rparr>"

definition both_keys :: local_storage where
  "both_keys = [TOKEN \<mapsto> quote live_token, USER \<mapsto> ''{}'', ''job_portal_theme'' \<mapsto> quote ''dark'']"

definition conflict_response :: "string \<Rightarrow> net_outcome" where
  "conflict_response txt =
     Responds 85 \<lparr>resp_status = 409, resp_statusText = ''Conflict'',
                  resp_contentType = Some ''application/json; charset=utf-8'', resp_body = txt\<rparr>"

definition sample_application :: CreateApplicationData where
  "sample_application =
     \<lparr>description = ''I would like to apply.'', resume = Some (File ''cv.pdf'' ''%PDF-1.4'')\<rparr>"

definition idle :: mutations_state where
  "idle = \<lparr>storage = [TOKEN \<mapsto> quote live_token], loading = False\<rparr>"

text \<open>
  A network that grants a request only at the expected address and with the expected
  \<^verbatim>\<open>Authorization\<close> header (\<open>None\<close>: with no such header).
\<close>

definition granted :: response where
  "granted = \<lparr>resp_status = 200, resp_statusText = ''OK'',
               resp_contentType = Some ''text/plain'', resp_body = ''granted''\<rparr>"

definition denied :: response where
  "denied = \<lparr>resp_status = 403, resp_statusText = ''Forbidden'',
              resp_contentType = Some ''text/plain'', resp_body = ''denied''\<rparr>"

definition guarded_environment :: "string \<Rightarrow> string option \<Rightarrow> environment" where
  "guarded_environment expected_url expected_authorization =
     \<lparr>baseURL = ''https://job-portal-api-nest.onrender.com'',
      network = (\<lambda>url config.
                   if url = expected_url \<and> headers config ''Authorization'' = expected_authorization
                   then Responds 40 granted else Responds 40 denied),
      AbortError_message = ''The operation was aborted.''\<rparr>"

lemmas sample_defs =
  sample_platform_def sample_atob_def sample_JSON_parse_def
  live_segment_def live_text_def live_payload_def stale_segment_def stale_text_def
  stale_payload_def login_body_def wrapped_body_def conflict_body_def quote_def unquote_def
  live_token_def stale_token_def stored_def sample_now_def TOKEN_def USER_def

section \<open>Properties of the session manager\<close>

subsection \<open>Storage and the two exits of \<open>initializeAuth\<close>\<close>

lemma storage_get_removed:
  "storage_get P (storage_remove (storage_remove ls TOKEN) USER) TOKEN = JNull"
  by (simp add: storage_get_def storage_remove_def TOKEN_def USER_def)

lemma clearAuthData_twice: "clearAuthData (clearAuthData s) = clearAuthData s"
  by (simp add: clearAuthData_def storage_remove_def)

lemma clearAuthData_simps:
  "user (clearAuthData s) = None"
  "localStorage (clearAuthData s) TOKEN = None"
  "localStorage (clearAuthData s) USER = None"
  by (simp_all add: clearAuthData_def storage_remove_def)

lemma initializeAuth_no_token:
  "\<not> truthy (storage_get P (localStorage s) TOKEN) \<Longrightarrow>
   initializeAuth P now s = (Inr (), s\<lparr>isLoading := False\<rparr>)"
  by (simp add: initializeAuth_def try_finally_def try_catch_def)

lemma initializeAuth_token:
  "truthy (storage_get P (localStorage s) TOKEN) \<Longrightarrow>
   initializeAuth P now s =
     (Inr (),
      (case parse_token P (storage_get P (localStorage s) TOKEN) of
         Inl e \<Rightarrow> clearAuthData s
       | Inr authUser \<Rightarrow>
           if isExpired P now (user_exp authUser) then clearAuthData s
           else s\<lparr>user := Some authUser\<rparr>)\<lparr>isLoading := False\<rparr>)"
  by (simp add: initializeAuth_def initializeAuth_parse_def try_finally_def try_catch_def
      split: sum.splits)

lemma isExpired_JNum: "isExpired P now (JNum e) = (e * 1000 \<le> now)"
  by (simp add: isExpired_def)

lemma parse_token_Inr:
  "decode_payload P token = Inr payload \<Longrightarrow> get_prop P payload ''sub'' = Inr sub \<Longrightarrow>
   get_prop P payload ''role'' = Inr role \<Longrightarrow> get_prop P payload ''exp'' = Inr exp \<Longrightarrow>
   parse_token P token = Inr \<lparr>user_id = sub, user_role = role, user_exp = exp\<rparr>"
  by (simp add: parse_token_def make_authUser_def)

lemma parse_token_Inl:
  "decode_payload P token = Inl err \<Longrightarrow> parse_token P token = Inl err"
  by (simp add: parse_token_def)

lemma parse_token_exp:
  "parse_token P token = Inr u \<Longrightarrow> decode_payload P token = Inr payload \<Longrightarrow>
   get_prop P payload ''exp'' = Inr (user_exp u)"
  by (auto simp: parse_token_def make_authUser_def split: sum.splits)

subsection \<open>The sample tokens\<close>

lemma sample_get_live:
  "storage_get sample_platform (localStorage (stored (quote live_token))) TOKEN = JStr live_token"
  by (simp add: storage_get_def sample_defs)

lemma sample_decode_live:
  "decode_payload sample_platform (JStr live_token) = Inr live_payload"
  by (simp add: decode_payload_def payload_segment_def sample_defs)

lemma sample_get_stale:
  "storage_get sample_platform (localStorage (stored (quote stale_token))) TOKEN = JStr stale_token"
  by (simp add: storage_get_def sample_defs)

lemma sample_decode_stale:
  "decode_payload sample_platform (JStr stale_token) = Inr stale_payload"
  by (simp add: decode_payload_def payload_segment_def sample_defs)

lemma sample_get_garbage:
  "storage_get sample_platform (localStorage (stored (quote ''garbage''))) TOKEN = JStr ''garbage''"
  by (simp add: storage_get_def sample_defs)

lemma sample_decode_garbage:
  "decode_payload sample_platform (JStr ''garbage'')
     = Inl (Error ''InvalidCharacterError'' ''The string to be decoded is not correctly encoded.'')"
  by (simp add: decode_payload_def payload_segment_def sample_defs)

subsection \<open>Initialisation from the stored token\<close>

text \<open>
  Claim C1. \<open>token\<close> is what \<^verbatim>\<open>storage.get\<close> returns for the token key and \<open>now\<close> the
  clock in milliseconds, so an expiry instant \<open>exp\<close> in seconds lies in the future when
  \<open>now < exp * 1000\<close>. A stored token is present when that value is truthy.
  \<^item> \<^verbatim>\<open>initializeAuth\<close> never throws, whatever is stored.
  \<^item> A stored token whose payload decodes and whose expiry is in the future gives a
    session with exactly the payload's \<^verbatim>\<open>sub\<close>, \<^verbatim>\<open>role\<close> and \<^verbatim>\<open>exp\<close>, which is
    authenticated; storage is not touched.
  \<^item> A stored token whose payload does not decode, or whose expiry has passed, gives no
    session, and the token key and the cached user key are erased.
  \<^item> When nothing is stored, or what is stored reads as an empty value, the state is left
    as it was (only the loading flag is cleared).
\<close>

theorem initializeAuth_from_stored_token:
  fixes P :: platform and now :: int and s :: auth_state
  defines "token \<equiv> storage_get P (localStorage s) TOKEN"
  defines "s' \<equiv> snd (initializeAuth P now s)"
  shows
    "fst (initializeAuth P now s) = Inr ()
     \<and> (truthy token \<and> decode_payload P token = Inr payload
          \<and> get_prop P payload ''sub'' = Inr sub \<and> get_prop P payload ''role'' = Inr role
          \<and> get_prop P payload ''exp'' = Inr (JNum exp) \<and> now < exp * 1000
        \<longrightarrow> s' = s\<lparr>user := Some \<lparr>user_id = sub, user_role = role, user_exp = JNum exp\<rparr>,
                    isLoading := False\<rparr>
            \<and> isAuthenticated P now s')
     \<and> (truthy token
          \<and> (decode_payload P token = Inl err
              \<or> (decode_payload P token = Inr payload
                  \<and> get_prop P payload ''exp'' = Inr (JNum exp) \<and> exp * 1000 \<le> now))
        \<longrightarrow> user s' = None \<and> \<not> isAuthenticated P now s'
            \<and> localStorage s' TOKEN = None \<and> localStorage s' USER = None)
     \<and> (\<not> truthy token \<longrightarrow> s' = s\<lparr>isLoading := False\<rparr>)"
proof (cases "truthy token")
  case False
  then show ?thesis
    using initializeAuth_no_token [of P s now] by (simp add: token_def s'_def)
next
  case True
  note run = initializeAuth_token [of P s now, OF True [unfolded token_def]]
  have throws: "fst (initializeAuth P now s) = Inr ()"
    by (simp add: run)
  have live: "s' = s\<lparr>user := Some \<lparr>user_id = sub, user_role = role, user_exp = JNum exp\<rparr>,
                      isLoading := False\<rparr> \<and> isAuthenticated P now s'"
    if "decode_payload P token = Inr payload" "get_prop P payload ''sub'' = Inr sub"
      "get_prop P payload ''role'' = Inr role" "get_prop P payload ''exp'' = Inr (JNum exp)"
      "now < exp * 1000"
  proof -
    have "parse_token P token = Inr \<lparr>user_id = sub, user_role = role, user_exp = JNum exp\<rparr>"
      using that by (simp add: parse_token_Inr)
    then show ?thesis
      using that(5) by (simp add: s'_def run token_def [symmetric] isExpired_JNum isAuthenticated_def)
  qed
  have cleared: "s' = (clearAuthData s)\<lparr>isLoading := False\<rparr>"
    if "decode_payload P token = Inl err
        \<or> (decode_payload P token = Inr payload
            \<and> get_prop P payload ''exp'' = Inr (JNum exp) \<and> exp * 1000 \<le> now)"
  proof (cases "parse_token P token")
    case (Inl e)
    then show ?thesis by (simp add: s'_def run token_def [symmetric])
  next
    case (Inr u)
    with that have dec: "decode_payload P token = Inr payload"
      and ex: "get_prop P payload ''exp'' = Inr (JNum exp)" and old: "exp * 1000 \<le> now"
      by (auto simp: parse_token_Inl)
    have "user_exp u = JNum exp"
      using parse_token_exp [OF Inr dec] ex by simp
    then show ?thesis
      using Inr old by (simp add: s'_def run token_def [symmetric] isExpired_JNum)
  qed
  have gone: "user s' = None \<and> \<not> isAuthenticated P now s'
            \<and> localStorage s' TOKEN = None \<and> localStorage s' USER = None"
    if "decode_payload P token = Inl err
        \<or> (decode_payload P token = Inr payload
            \<and> get_prop P payload ''exp'' = Inr (JNum exp) \<and> exp * 1000 \<le> now)"
    using cleared [OF that] by (simp add: clearAuthData_simps isAuthenticated_def)
  show ?thesis
  proof (intro conjI impI)
    show "fst (initializeAuth P now s) = Inr ()" by (rule throws)
  next
    assume "truthy token \<and> decode_payload P token = Inr payload
          \<and> get_prop P payload ''sub'' = Inr sub \<and> get_prop P payload ''role'' = Inr role
          \<and> get_prop P payload ''exp'' = Inr (JNum exp) \<and> now < exp * 1000"
    then show "s' = s\<lparr>user := Some \<lparr>user_id = sub, user_role = role, user_exp = JNum exp\<rparr>,
                    isLoading := False\<rparr>" using live by blast
  qed (use True live gone in blast)+
qed

theorem initializeAuth_from_stored_token_witness:
  "truthy (storage_get sample_platform (localStorage (stored (quote live_token))) TOKEN)
   \<and> sample_now < 2000000000 * 1000
   \<and> snd (initializeAuth sample_platform sample_now (stored (quote live_token)))
       = (stored (quote live_token))
           \<lparr>user := Some \<lparr>user_id = JNum 7, user_role = JStr ''SEEKER'', user_exp = JNum 2000000000\<rparr>,
            isLoading := False\<rparr>
   \<and> truthy (storage_get sample_platform (localStorage (stored (quote stale_token))) TOKEN)
   \<and> 1000000000 * 1000 \<le> sample_now
   \<and> localStorage (snd (initializeAuth sample_platform sample_now (stored (quote stale_token)))) TOKEN
       = None
   \<and> truthy (storage_get sample_platform (localStorage (stored (quote ''garbage''))) TOKEN)
   \<and> localStorage (snd (initializeAuth sample_platform sample_now (stored (quote ''garbage'')))) TOKEN
       = None
   \<and> \<not> truthy (storage_get sample_platform (localStorage (stored [])) TOKEN)
   \<and> snd (initializeAuth sample_platform sample_now (stored [])) = (stored [])\<lparr>isLoading := False\<rparr>"
proof -
  have props:
    "get_prop sample_platform live_payload ''sub'' = Inr (JNum 7)"
    "get_prop sample_platform live_payload ''role'' = Inr (JStr ''SEEKER'')"
    "get_prop sample_platform live_payload ''exp'' = Inr (JNum 2000000000)"
    "get_prop sample_platform stale_payload ''exp'' = Inr (JNum 1000000000)"
    by (simp_all add: live_payload_def stale_payload_def)
  have clock: "sample_now < 2000000000 * 1000" "1000000000 * 1000 \<le> sample_now"
    by (simp_all add: sample_now_def)
  have nonempty: "live_token \<noteq> []" "stale_token \<noteq> []"
    by (simp_all add: live_token_def stale_token_def)
  have absent: "\<not> truthy (storage_get sample_platform (localStorage (stored [])) TOKEN)"
    by (simp add: storage_get_def stored_def)
  note live =
    initializeAuth_from_stored_token
      [where P = sample_platform and now = sample_now and s = "stored (quote live_token)"
         and payload = live_payload and sub = "JNum 7" and role = "JStr ''SEEKER''"
         and exp = 2000000000]
  note stale =
    initializeAuth_from_stored_token
      [where P = sample_platform and now = sample_now and s = "stored (quote stale_token)"
         and payload = stale_payload and exp = 1000000000]
  note garbage =
    initializeAuth_from_stored_token
      [where P = sample_platform and now = sample_now and s = "stored (quote ''garbage'')"
         and err = "Error ''InvalidCharacterError''
                      ''The string to be decoded is not correctly encoded.''"]
  note none =
    initializeAuth_from_stored_token
      [where P = sample_platform and now = sample_now and s = "stored []"]
  have 1: "snd (initializeAuth sample_platform sample_now (stored (quote live_token)))
       = (stored (quote live_token))
           \<lparr>user := Some \<lparr>user_id = JNum 7, user_role = JStr ''SEEKER'', user_exp = JNum 2000000000\<rparr>,
            isLoading := False\<rparr>"
    using live props clock nonempty by (simp add: sample_get_live sample_decode_live)
  have 2: "localStorage (snd (initializeAuth sample_platform sample_now (stored (quote stale_token)))) TOKEN
       = None"
    using stale props clock nonempty by (simp add: sample_get_stale sample_decode_stale)
  have 3: "localStorage (snd (initializeAuth sample_platform sample_now (stored (quote ''garbage'')))) TOKEN
       = None"
    using garbage by (simp add: sample_get_garbage sample_decode_garbage)
  have 4: "snd (initializeAuth sample_platform sample_now (stored [])) = (stored [])\<lparr>isLoading := False\<rparr>"
    using none absent by simp
  show ?thesis
    using 1 2 3 4 clock absent nonempty
    by (simp add: sample_get_live sample_get_stale sample_get_garbage)
qed

subsection \<open>Logout\<close>

text \<open>
  Claim C5. \<^verbatim>\<open>logout\<close> performed twice leaves storage and the in-memory session as
  performing it once does, and from every prior state \<^verbatim>\<open>logout\<close> followed by
  \<^verbatim>\<open>initializeAuth\<close> completes without a session: no user, not authenticated, no
  stored token.
\<close>

theorem logout_idempotent_then_anonymous:
  "logout (logout s) = logout s
   \<and> initializeAuth P now (logout s) = (Inr (), (logout s)\<lparr>isLoading := False\<rparr>)
   \<and> user (snd (initializeAuth P now (logout s))) = None
   \<and> \<not> isAuthenticated P now (snd (initializeAuth P now (logout s)))
   \<and> localStorage (snd (initializeAuth P now (logout s))) TOKEN = None"
proof -
  have absent: "\<not> truthy (storage_get P (localStorage (logout s)) TOKEN)"
    by (simp add: logout_def clearAuthData_def storage_get_removed)
  have run: "initializeAuth P now (logout s) = (Inr (), (logout s)\<lparr>isLoading := False\<rparr>)"
    using absent by (rule initializeAuth_no_token)
  have none: "user (logout s) = None"
    by (simp add: logout_def clearAuthData_def)
  have gone: "localStorage (logout s) TOKEN = None"
    by (simp add: logout_def clearAuthData_def storage_remove_def TOKEN_def USER_def)
  show ?thesis
    using run none gone by (simp add: logout_def clearAuthData_twice isAuthenticated_def)
qed

subsection \<open>Responses of the sample network\<close>

lemma sample_json_response:
  "sample_JSON_parse txt = Inr v \<Longrightarrow>
   request sample_platform (sample_environment (json_response txt)) ls endpoint options = Inr v"
  by (simp add: request_def fetch_def sample_environment_def json_response_def
      API_CONFIG_timeout_def handleResponse_def ok_def sample_platform_def)

lemma sample_parse_bodies:
  "sample_JSON_parse ''[]'' = Inr (JArr [])"
  "sample_JSON_parse wrapped_body = Inr (JObj [(''data'', JArr [])])"
  "sample_JSON_parse login_body = Inr (JObj [(''accessToken'', JStr ''not-a-token'')])"
  by (simp_all add: sample_defs)

subsection \<open>Login with a token that does not decode\<close>

lemma login_token_branch:
  assumes "authApi_login P E (localStorage s) credentials = Inr response"
    and "get_prop P response ''accessToken'' = Inr accessToken"
    and "truthy accessToken"
    and "parse_token P accessToken = Inl err"
  shows "login P E credentials s =
     (Inr \<lparr>success = False, result_message = ''Invalid token received'', application = JUndefined\<rparr>,
      s\<lparr>localStorage := storage_set P (localStorage s) TOKEN accessToken, isLoading := False\<rparr>)"
  using assms
  by (simp add: login_def login_parse_def try_finally_def try_catch_def Let_def)

text \<open>
  Claim C9. Let the login call return a response with a truthy \<^verbatim>\<open>accessToken\<close> whose
  payload segment does not decode. Then \<^verbatim>\<open>login\<close> returns
  \<^verbatim>\<open>{success: false, message: "Invalid token received"}\<close>, the state it leaves differs
  from the one it started in only by the token written to storage (and the cleared
  loading flag): the write made before decoding is not undone and no session is set. If
  the stored token reads back as written, a following \<^verbatim>\<open>initializeAuth\<close> erases it.
\<close>

theorem login_keeps_undecodable_token:
  fixes P :: platform and E :: environment and s :: auth_state and credentials :: LoginCredentials
  defines "s1 \<equiv> snd (login P E credentials s)"
  assumes "authApi_login P E (localStorage s) credentials = Inr response"
    and "get_prop P response ''accessToken'' = Inr accessToken"
    and "truthy accessToken"
    and "decode_payload P accessToken = Inl err"
    and "storage_get P (storage_set P (localStorage s) TOKEN accessToken) TOKEN = accessToken"
  shows
    "fst (login P E credentials s)
       = Inr \<lparr>success = False, result_message = ''Invalid token received'', application = JUndefined\<rparr>
     \<and> s1 = s\<lparr>localStorage := storage_set P (localStorage s) TOKEN accessToken, isLoading := False\<rparr>
     \<and> localStorage s1 TOKEN \<noteq> None
     \<and> storage_get P (localStorage s1) TOKEN = accessToken
     \<and> user s1 = user s
     \<and> fst (initializeAuth P now s1) = Inr ()
     \<and> localStorage (snd (initializeAuth P now s1)) TOKEN = None
     \<and> user (snd (initializeAuth P now s1)) = None"
proof -
  have parse: "parse_token P accessToken = Inl err"
    using assms(5) by (rule parse_token_Inl)
  note run = login_token_branch [OF assms(2) assms(3) assms(4) parse]
  have s1: "s1 = s\<lparr>localStorage := storage_set P (localStorage s) TOKEN accessToken, isLoading := False\<rparr>"
    by (simp add: s1_def run)
  have kept: "localStorage s1 TOKEN \<noteq> None"
    by (simp add: s1 storage_set_def)
  have reread: "storage_get P (localStorage s1) TOKEN = accessToken"
    using assms(6) by (simp add: s1)
  have present: "truthy (storage_get P (localStorage s1) TOKEN)"
    using reread assms(4) by simp
  have init: "initializeAuth P now s1 = (Inr (), (clearAuthData s1)\<lparr>isLoading := False\<rparr>)"
    using initializeAuth_token [OF present, of now] by (simp add: reread parse)
  show ?thesis
    using run s1 kept reread init by (simp add: clearAuthData_simps)
qed

theorem login_keeps_undecodable_token_witness:
  "authApi_login sample_platform (sample_environment (json_response login_body))
       (localStorage login_state) sample_credentials
     = Inr (JObj [(''accessToken'', JStr ''not-a-token'')])
   \<and> truthy (JStr ''not-a-token'')
   \<and> decode_payload sample_platform (JStr ''not-a-token'')
       = Inl (Error ''InvalidCharacterError'' ''The string to be decoded is not correctly encoded.'')
   \<and> login sample_platform (sample_environment (json_response login_body)) sample_credentials login_state
     = (Inr \<lparr>success = False, result_message = ''Invalid token received'', application = JUndefined\<rparr>,
        login_state\<lparr>localStorage := [TOKEN \<mapsto> quote ''not-a-token'']\<rparr>)
   \<and> localStorage
         (snd (initializeAuth sample_platform sample_now
            (snd (login sample_platform (sample_environment (json_response login_body))
                    sample_credentials login_state)))) TOKEN = None"
proof -
  have resp: "authApi_login sample_platform (sample_environment (json_response login_body))
       (localStorage login_state) sample_credentials
     = Inr (JObj [(''accessToken'', JStr ''not-a-token'')])"
    by (simp add: authApi_login_def HttpClient_post_def sample_json_response sample_parse_bodies)
  have tok: "get_prop sample_platform (JObj [(''accessToken'', JStr ''not-a-token'')]) ''accessToken''
      = Inr (JStr ''not-a-token'')"
    by simp
  have tr: "truthy (JStr ''not-a-token'')"
    by simp
  have dec: "decode_payload sample_platform (JStr ''not-a-token'')
       = Inl (Error ''InvalidCharacterError'' ''The string to be decoded is not correctly encoded.'')"
    by (simp add: decode_payload_def payload_segment_def sample_defs)
  have written: "storage_set sample_platform (localStorage login_state) TOKEN (JStr ''not-a-token'')
      = [TOKEN \<mapsto> quote ''not-a-token'']"
    by (simp add: storage_set_def login_state_def sample_platform_def)
  have reread: "storage_get sample_platform
        (storage_set sample_platform (localStorage login_state) TOKEN (JStr ''not-a-token'')) TOKEN
      = JStr ''not-a-token''"
    unfolding written by (simp add: storage_get_def sample_defs)
  note inst = login_keeps_undecodable_token [OF resp tok tr dec reread, of sample_now]
  have state: "snd (login sample_platform (sample_environment (json_response login_body))
                    sample_credentials login_state)
      = login_state\<lparr>localStorage := [TOKEN \<mapsto> quote ''not-a-token'']\<rparr>"
  proof -
    have "snd (login sample_platform (sample_environment (json_response login_body))
                    sample_credentials login_state)
      = login_state\<lparr>localStorage := [TOKEN \<mapsto> quote ''not-a-token''], isLoading := False\<rparr>"
      using inst by (simp add: written)
    then show ?thesis by (simp add: login_state_def)
  qed
  have result: "fst (login sample_platform (sample_environment (json_response login_body))
                    sample_credentials login_state)
      = Inr \<lparr>success = False, result_message = ''Invalid token received'', application = JUndefined\<rparr>"
    using inst by blast
  have erased: "localStorage
         (snd (initializeAuth sample_platform sample_now
            (snd (login sample_platform (sample_environment (json_response login_body))
                    sample_credentials login_state)))) TOKEN = None"
    using inst by blast
  have both: "login sample_platform (sample_environment (json_response login_body))
                sample_credentials login_state
     = (Inr \<lparr>success = False, result_message = ''Invalid token received'', application = JUndefined\<rparr>,
        login_state\<lparr>localStorage := [TOKEN \<mapsto> quote ''not-a-token'']\<rparr>)"
    using result state by (simp add: prod_eq_iff)
  show ?thesis
    using resp tr dec both erased by blast
qed

section \<open>Properties of the request pipeline\<close>

subsection \<open>The authorization header\<close>

lemma request_config_headers:
  "headers (request_config P ls options) =
     (case body options of
        FormData parts \<Rightarrow>
          (API_CONFIG_headers ++ getAuthHeaders P ls ++ headers options)(''Content-Type'' := None)
      | _ \<Rightarrow> API_CONFIG_headers ++ getAuthHeaders P ls ++ headers options)"
  by (simp add: request_config_def Let_def split: body_init.splits)

lemma request_config_authorization:
  assumes "headers options ''Authorization'' = None"
  shows "headers (request_config P ls options) ''Authorization''
      = (if truthy (storage_get P ls TOKEN)
         then Some (''Bearer '' @ ToString P (storage_get P ls TOKEN)) else None)"
  using assms
  by (simp add: request_config_headers getAuthHeaders_def API_CONFIG_headers_def Let_def
      map_add_def split: body_init.splits)

lemma wrapper_options_no_authorization:
  "headers (post_options P d contentType) ''Authorization'' = None"
  "headers (patch_options P d contentType) ''Authorization'' = None"
  by (simp_all add: post_options_def patch_options_def split: post_data.splits)

lemma absent_not_truthy: "ls TOKEN = None \<Longrightarrow> \<not> truthy (storage_get P ls TOKEN)"
  by (simp add: storage_get_def)

text \<open>
  Claim C4. Each wrapper of the pipeline (\<^verbatim>\<open>get\<close>, \<^verbatim>\<open>post\<close>, \<^verbatim>\<open>put\<close>,
  \<^verbatim>\<open>patch\<close>, \<^verbatim>\<open>delete\<close>) hands \<^verbatim>\<open>fetch\<close> one configuration, the same whatever
  the network does, and its result is what comes of that call. When a token is present in
  storage (\<^verbatim>\<open>storage.get\<close> returns a non-empty string \<open>t\<close>) that configuration carries
  \<^verbatim>\<open>Authorization: Bearer t\<close> (for any truthy stored value, \<^verbatim>\<open>Bearer\<close> and its
  string conversion). When no token is stored, or the stored value reads as \<^verbatim>\<open>null\<close>
  or as another empty value, the configuration has no \<^verbatim>\<open>Authorization\<close> header, so
  neither \<^verbatim>\<open>Bearer null\<close> nor \<^verbatim>\<open>Bearer undefined\<close> is sent for a missing token.
\<close>

theorem every_request_carries_authorization:
  fixes P :: platform and ls :: local_storage
  defines "token \<equiv> storage_get P ls TOKEN"
  defines "carries \<equiv> \<lambda>config.
     (\<forall>t. token = JStr t \<and> t \<noteq> [] \<longrightarrow> headers config ''Authorization'' = Some (''Bearer '' @ t))
     \<and> (truthy token \<longrightarrow> headers config ''Authorization'' = Some (''Bearer '' @ ToString P token))
     \<and> (ls TOKEN = None \<or> \<not> truthy token \<longrightarrow> headers config ''Authorization'' = None)"
  defines "settle \<equiv> \<lambda>outcome.
     (case outcome of Rejected error \<Rightarrow> Inl (request_catch error) | Resolved r \<Rightarrow> handleResponse P r)"
  shows
    "(\<exists>config. carries config
        \<and> (\<forall>E. HttpClient_get P E ls endpoint params
                 = settle (fetch E (baseURL E @ get_endpoint P endpoint params) config)))
     \<and> (\<exists>config. carries config
        \<and> (\<forall>E. HttpClient_post P E ls endpoint d contentType
                 = settle (fetch E (baseURL E @ endpoint) config)))
     \<and> (\<exists>config. carries config
        \<and> (\<forall>E. HttpClient_put P E ls endpoint v = settle (fetch E (baseURL E @ endpoint) config)))
     \<and> (\<exists>config. carries config
        \<and> (\<forall>E. HttpClient_patch P E ls endpoint d contentType
                 = settle (fetch E (baseURL E @ endpoint) config)))
     \<and> (\<exists>config. carries config
        \<and> (\<forall>E. HttpClient_delete P E ls endpoint = settle (fetch E (baseURL E @ endpoint) config)))"
proof -
  have carries: "carries (request_config P ls options)"
    if "headers options ''Authorization'' = None" for options
    using request_config_authorization [OF that, of P ls] absent_not_truthy [of ls P]
    by (auto simp: carries_def token_def)
  have sent: "request P E ls path options = settle (fetch E (baseURL E @ path) (request_config P ls options))"
    for E path options
    by (simp add: request_def settle_def)
  have get: "\<exists>config. carries config
        \<and> (\<forall>E. HttpClient_get P E ls endpoint params
                 = settle (fetch E (baseURL E @ get_endpoint P endpoint params) config))"
    unfolding HttpClient_get_def sent
    by (rule exI [of _ "request_config P ls \<lparr>http_method = ''GET'', headers = Map.empty, body = NoBody\<rparr>"])
      (simp add: carries)
  have post: "\<exists>config. carries config
        \<and> (\<forall>E. HttpClient_post P E ls endpoint d contentType
                 = settle (fetch E (baseURL E @ endpoint) config))"
    unfolding HttpClient_post_def sent
    by (rule exI [of _ "request_config P ls (post_options P d contentType)"])
      (simp add: carries wrapper_options_no_authorization)
  have put: "\<exists>config. carries config
        \<and> (\<forall>E. HttpClient_put P E ls endpoint v = settle (fetch E (baseURL E @ endpoint) config))"
    unfolding HttpClient_put_def sent
    by (rule exI [of _ "request_config P ls
          \<lparr>http_method = ''PUT'', headers = Map.empty,
           body = (case JSON_stringify P v of None \<Rightarrow> NoBody | Some s \<Rightarrow> Text s)\<rparr>"])
      (simp add: carries)
  have patch: "\<exists>config. carries config
        \<and> (\<forall>E. HttpClient_patch P E ls endpoint d contentType
                 = settle (fetch E (baseURL E @ endpoint) config))"
    unfolding HttpClient_patch_def sent
    by (rule exI [of _ "request_config P ls (patch_options P d contentType)"])
      (simp add: carries wrapper_options_no_authorization)
  have delete: "\<exists>config. carries config
        \<and> (\<forall>E. HttpClient_delete P E ls endpoint = settle (fetch E (baseURL E @ endpoint) config))"
    unfolding HttpClient_delete_def sent
    by (rule exI [of _ "request_config P ls \<lparr>http_method = ''DELETE'', headers = Map.empty, body = NoBody\<rparr>"])
      (simp add: carries)
  show ?thesis
    using get post put patch delete by blast
qed

lemma guarded_fetch:
  "headers config ''Authorization'' = expected \<Longrightarrow>
   fetch (guarded_environment url expected) url config = Resolved granted"
  by (simp add: fetch_def guarded_environment_def API_CONFIG_timeout_def)

lemma granted_text: "handleResponse P granted = Inr (JStr ''granted'')"
  by (simp add: handleResponse_def granted_def ok_def)

theorem every_request_carries_authorization_witness:
  "storage_get sample_platform [TOKEN \<mapsto> quote live_token] TOKEN = JStr live_token
   \<and> live_token \<noteq> []
   \<and> HttpClient_get sample_platform
         (guarded_environment ''https://job-portal-api-nest.onrender.com/jobs''
            (Some (''Bearer '' @ live_token)))
         [TOKEN \<mapsto> quote live_token] ''/jobs'' None
       = Inr (JStr ''granted'')
   \<and> (Map.empty :: local_storage) TOKEN = None
   \<and> HttpClient_delete sample_platform
         (guarded_environment ''https://job-portal-api-nest.onrender.com/jobs/3'' None)
         Map.empty ''/jobs/3''
       = Inr (JStr ''granted'')"
proof -
  have tok: "storage_get sample_platform [TOKEN \<mapsto> quote live_token] TOKEN = JStr live_token"
    using sample_get_live by (simp add: stored_def)
  have nonempty: "live_token \<noteq> []"
    by (simp add: live_token_def)
  have base: "baseURL (guarded_environment url expected) = ''https://job-portal-api-nest.onrender.com''"
    for url expected
    by (simp add: guarded_environment_def)
  from every_request_carries_authorization
         [of sample_platform "[TOKEN \<mapsto> quote live_token]" "''/jobs''" None]
  obtain config where
    bearer: "\<forall>t. storage_get sample_platform [TOKEN \<mapsto> quote live_token] TOKEN = JStr t \<and> t \<noteq> []
               \<longrightarrow> headers config ''Authorization'' = Some (''Bearer '' @ t)"
    and sent: "\<forall>E. HttpClient_get sample_platform E [TOKEN \<mapsto> quote live_token] ''/jobs'' None
         = (case fetch E (baseURL E @ get_endpoint sample_platform ''/jobs'' None) config of
              Rejected error \<Rightarrow> Inl (request_catch error)
            | Resolved r \<Rightarrow> handleResponse sample_platform r)"
    by blast
  have hdr: "headers config ''Authorization'' = Some (''Bearer '' @ live_token)"
    using bearer tok nonempty by blast
  have get: "HttpClient_get sample_platform
         (guarded_environment ''https://job-portal-api-nest.onrender.com/jobs''
            (Some (''Bearer '' @ live_token)))
         [TOKEN \<mapsto> quote live_token] ''/jobs'' None
       = Inr (JStr ''granted'')"
  proof -
    let ?E = "guarded_environment ''https://job-portal-api-nest.onrender.com/jobs''
                (Some (''Bearer '' @ live_token))"
    have url: "baseURL ?E @ get_endpoint sample_platform ''/jobs'' None
        = ''https://job-portal-api-nest.onrender.com/jobs''"
      by (simp add: base get_endpoint_def)
    have "fetch ?E (baseURL ?E @ get_endpoint sample_platform ''/jobs'' None) config = Resolved granted"
      unfolding url by (rule guarded_fetch [OF hdr])
    with sent [rule_format, of ?E] show ?thesis
      by (simp only: fetch_result.case granted_text)
  qed
  from every_request_carries_authorization [of sample_platform Map.empty]
  obtain config' where
    none: "(Map.empty :: local_storage) TOKEN = None
             \<or> \<not> truthy (storage_get sample_platform Map.empty TOKEN)
           \<longrightarrow> headers config' ''Authorization'' = None"
    and sent': "\<forall>E. HttpClient_delete sample_platform E Map.empty ''/jobs/3''
         = (case fetch E (baseURL E @ ''/jobs/3'') config' of
              Rejected error \<Rightarrow> Inl (request_catch error)
            | Resolved r \<Rightarrow> handleResponse sample_platform r)"
    by blast
  have hdr': "headers config' ''Authorization'' = None"
    using none by simp
  have delete: "HttpClient_delete sample_platform
         (guarded_environment ''https://job-portal-api-nest.onrender.com/jobs/3'' None)
         Map.empty ''/jobs/3''
       = Inr (JStr ''granted'')"
  proof -
    let ?E = "guarded_environment ''https://job-portal-api-nest.onrender.com/jobs/3'' None"
    have url: "baseURL ?E @ ''/jobs/3'' = ''https://job-portal-api-nest.onrender.com/jobs/3''"
      by (simp add: base)
    have "fetch ?E (baseURL ?E @ ''/jobs/3'') config' = Resolved granted"
      unfolding url by (rule guarded_fetch [OF hdr'])
    with sent' [rule_format, of ?E] show ?thesis
      by (simp only: fetch_result.case granted_text)
  qed
  show ?thesis
    using tok nonempty get delete by simp
qed

section \<open>Properties of the domain API modules\<close>

subsection \<open>The applications list\<close>

text \<open>
  Claim C8. When the pipeline returns, for the applications "get all" endpoint, a bare
  array, or an object whose \<^verbatim>\<open>data\<close> property is the array, then
  \<^verbatim>\<open>applicationsApi.getAll\<close> returns that array itself.
\<close>

theorem applicationsApi_getAll_bare_array:
  assumes "HttpClient_get P E ls ''/applications'' None = Inr response"
    and "response = JArr xs \<or> (\<exists>kvs. response = JObj kvs \<and> map_of kvs ''data'' = Some (JArr xs))"
  shows "applicationsApi_getAll P E ls = Inr (JArr xs)"
  using assms by (auto simp: applicationsApi_getAll_def bind_def js_or_def)

theorem applicationsApi_getAll_bare_array_witness:
  "HttpClient_get sample_platform (sample_environment (json_response ''[]'')) Map.empty
       ''/applications'' None = Inr (JArr [])
   \<and> applicationsApi_getAll sample_platform (sample_environment (json_response ''[]'')) Map.empty
       = Inr (JArr [])
   \<and> HttpClient_get sample_platform (sample_environment (json_response wrapped_body)) Map.empty
       ''/applications'' None = Inr (JObj [(''data'', JArr [])])
   \<and> applicationsApi_getAll sample_platform (sample_environment (json_response wrapped_body)) Map.empty
       = Inr (JArr [])"
proof -
  have bare: "HttpClient_get sample_platform (sample_environment (json_response ''[]'')) Map.empty
       ''/applications'' None = Inr (JArr [])"
    by (simp add: HttpClient_get_def sample_json_response sample_parse_bodies)
  have wrapped: "HttpClient_get sample_platform (sample_environment (json_response wrapped_body))
       Map.empty ''/applications'' None = Inr (JObj [(''data'', JArr [])])"
    by (simp add: HttpClient_get_def sample_json_response sample_parse_bodies)
  show ?thesis
    using applicationsApi_getAll_bare_array [OF bare, of "[]"]
      applicationsApi_getAll_bare_array [OF wrapped, of "[]"] bare wrapped
    by simp
qed

subsection \<open>Query parameters of \<open>get\<close>\<close>

lemma update_fresh: "k \<notin> fst ` set al \<Longrightarrow> AList.update k v al = al @ [(k, v)]"
  by (induction al) auto

lemma stringParams_loop:
  "distinct (map fst params) \<Longrightarrow> ''__proto__'' \<notin> fst ` set params \<Longrightarrow>
   fst ` set params \<inter> fst ` set acc = {} \<Longrightarrow>
   foldl (\<lambda>acc (key, v).
            if v \<noteq> JUndefined \<and> v \<noteq> JNull then assign acc key (ToString P v) else acc)
     acc params
   = acc @ map (\<lambda>(k, v). (k, ToString P v))
             (filter (\<lambda>(k, v). v \<noteq> JUndefined \<and> v \<noteq> JNull) params)"
proof (induction params arbitrary: acc)
  case Nil
  then show ?case by simp
next
  case (Cons kv params)
  obtain k v where kv: "kv = (k, v)" by (cases kv)
  have fresh: "k \<notin> fst ` set acc"
    using Cons.prems(3) by (auto simp: kv)
  have plain: "k \<noteq> ''__proto__''"
    using Cons.prems(2) by (auto simp: kv)
  have rest: "distinct (map fst params)" and notin: "k \<notin> fst ` set params"
    using Cons.prems(1) by (auto simp: kv)
  have rest2: "''__proto__'' \<notin> fst ` set params"
    using Cons.prems(2) by auto
  show ?case
  proof (cases "v \<noteq> JUndefined \<and> v \<noteq> JNull")
    case True
    have disj: "fst ` set params \<inter> fst ` set (acc @ [(k, ToString P v)]) = {}"
      using Cons.prems(3) notin by (auto simp: kv)
    show ?thesis
      using True plain Cons.IH [OF rest rest2 disj]
      by (simp add: kv assign_def update_fresh [OF fresh])
  next
    case False
    have disj: "fst ` set params \<inter> fst ` set acc = {}"
      using Cons.prems(3) by (auto simp: kv)
    show ?thesis
      using False Cons.IH [OF rest rest2 disj] by (auto simp: kv)
  qed
qed

text \<open>
  Claim C6, as the code has it. For a parameter record (its keys distinct, none of them
  \<^verbatim>\<open>__proto__\<close>) \<^verbatim>\<open>get\<close> leaves out exactly the entries whose value is \<^verbatim>\<open>null\<close>
  or \<^verbatim>\<open>undefined\<close>; every other entry, an empty string included, is kept with its value
  converted to a string, in the order of the record. Whatever the network does, the
  wrapper's result is what comes of the one \<^verbatim>\<open>fetch\<close> at the base address, the path, a
  question mark and the serialisation of the kept entries.
\<close>

theorem get_omits_null_and_undefined:
  assumes "distinct (map fst params)" and "''__proto__'' \<notin> fst ` set params"
  shows
    "stringParams P params
       = map (\<lambda>(k, v). (k, ToString P v))
           (filter (\<lambda>(k, v). v \<noteq> JUndefined \<and> v \<noteq> JNull) params)
     \<and> ((k, str) \<in> set (stringParams P params)
          \<longleftrightarrow> (\<exists>v. (k, v) \<in> set params \<and> v \<noteq> JUndefined \<and> v \<noteq> JNull \<and> str = ToString P v))
     \<and> (\<forall>E. HttpClient_get P E ls endpoint (Some params)
            = (case fetch E
                      (baseURL E @ endpoint @ ''?'' @
                         URLSearchParams_toString P
                           (map (\<lambda>(k, v). (k, ToString P v))
                              (filter (\<lambda>(k, v). v \<noteq> JUndefined \<and> v \<noteq> JNull) params)))
                      (request_config P ls \<lparr>http_method = ''GET'', headers = Map.empty, body = NoBody\<rparr>)
               of Rejected error \<Rightarrow> Inl (request_catch error)
                | Resolved r \<Rightarrow> handleResponse P r))"
proof -
  have eq: "stringParams P params
       = map (\<lambda>(k, v). (k, ToString P v))
           (filter (\<lambda>(k, v). v \<noteq> JUndefined \<and> v \<noteq> JNull) params)"
    unfolding stringParams_def using stringParams_loop [OF assms, of "[]" P] by simp
  have mem: "(k, str) \<in> set (stringParams P params)
          \<longleftrightarrow> (\<exists>v. (k, v) \<in> set params \<and> v \<noteq> JUndefined \<and> v \<noteq> JNull \<and> str = ToString P v)"
    unfolding eq by auto
  have sent: "HttpClient_get P E ls endpoint (Some params)
            = (case fetch E
                      (baseURL E @ endpoint @ ''?'' @
                         URLSearchParams_toString P
                           (map (\<lambda>(k, v). (k, ToString P v))
                              (filter (\<lambda>(k, v). v \<noteq> JUndefined \<and> v \<noteq> JNull) params)))
                      (request_config P ls \<lparr>http_method = ''GET'', headers = Map.empty, body = NoBody\<rparr>)
               of Rejected error \<Rightarrow> Inl (request_catch error)
                | Resolved r \<Rightarrow> handleResponse P r)" for E
    by (simp add: HttpClient_get_def request_def get_endpoint_def eq)
  show ?thesis
    using eq mem sent by blast
qed

theorem get_omits_null_and_undefined_witness:
  "distinct (map fst sample_filters)
   \<and> ''__proto__'' \<notin> fst ` set sample_filters
   \<and> stringParams sample_platform sample_filters = [(''status'', ''ACTIVE''), (''search'', [])]
   \<and> HttpClient_get sample_platform
         (guarded_environment ''https://job-portal-api-nest.onrender.com/jobs?status=ACTIVE&search='' None)
         Map.empty ''/jobs'' (Some sample_filters)
       = Inr (JStr ''granted'')"
proof -
  let ?E = "guarded_environment ''https://job-portal-api-nest.onrender.com/jobs?status=ACTIVE&search='' None"
  let ?config = "request_config sample_platform Map.empty
                   \<lparr>http_method = ''GET'', headers = Map.empty, body = NoBody\<rparr>"
  have d: "distinct (map fst sample_filters)" and p: "''__proto__'' \<notin> fst ` set sample_filters"
    by (simp_all add: sample_filters_def)
  note inst = get_omits_null_and_undefined [OF d p, of sample_platform _ _ Map.empty "''/jobs''"]
  have params: "stringParams sample_platform sample_filters = [(''status'', ''ACTIVE''), (''search'', [])]"
    using inst by (simp add: sample_filters_def)
  have url: "baseURL ?E @ ''/jobs'' @ ''?'' @
       URLSearchParams_toString sample_platform
         (map (\<lambda>(k, v). (k, ToString sample_platform v))
            (filter (\<lambda>(k, v). v \<noteq> JUndefined \<and> v \<noteq> JNull) sample_filters))
     = ''https://job-portal-api-nest.onrender.com/jobs?status=ACTIVE&search=''"
    by (simp add: guarded_environment_def sample_filters_def sample_platform_def)
  have hdr: "headers ?config ''Authorization'' = None"
    by (simp add: request_config_authorization storage_get_def)
  have "fetch ?E (baseURL ?E @ ''/jobs'' @ ''?'' @
       URLSearchParams_toString sample_platform
         (map (\<lambda>(k, v). (k, ToString sample_platform v))
            (filter (\<lambda>(k, v). v \<noteq> JUndefined \<and> v \<noteq> JNull) sample_filters))) ?config
      = Resolved granted"
    unfolding url by (rule guarded_fetch [OF hdr])
  with inst [THEN conjunct2, THEN conjunct2, rule_format, of ?E]
  have get: "HttpClient_get sample_platform ?E Map.empty ''/jobs'' (Some sample_filters)
       = Inr (JStr ''granted'')"
    by (simp only: fetch_result.case granted_text)
  show ?thesis
    using d p params get by blast
qed

text \<open>
  Claim C6 as stated fails: a parameter whose value is the empty string is not left out.
\<close>

theorem get_keeps_empty_string_counterexample:
  "stringParams sample_platform [(''search'', JStr [])] = [(''search'', [])]
   \<and> get_endpoint sample_platform ''/jobs'' (Some [(''search'', JStr [])]) = ''/jobs?search=''"
  by (simp add: stringParams_def assign_def get_endpoint_def sample_platform_def)

subsection \<open>Job normalisation\<close>

lemma get_prop_defined:
  "v \<noteq> JUndefined \<Longrightarrow> v \<noteq> JNull \<Longrightarrow> \<exists>x. get_prop P v k = Inr x"
  by (cases v) simp_all

lemma bind_Inr: "m = Inr v \<Longrightarrow> bind m f = f v"
  by (simp add: bind_def)

text \<open>
  Claim C7, as the code has it. For every raw job object (any value but \<^verbatim>\<open>null\<close> and
  \<^verbatim>\<open>undefined\<close>) \<^verbatim>\<open>transformJob\<close> returns a job whose \<^verbatim>\<open>employerId\<close> is the raw
  job's \<^verbatim>\<open>userId\<close>, and whose \<^verbatim>\<open>jobLocation\<close> is \<^verbatim>\<open>null\<close> when the raw job has
  neither \<^verbatim>\<open>jobLocation\<close> nor \<^verbatim>\<open>location\<close>.
\<close>

theorem transformJob_employerId_and_location:
  assumes "rawJob \<noteq> JUndefined" and "rawJob \<noteq> JNull"
  shows
    "\<exists>job. transformJob P nowISO rawJob = Inr job
       \<and> get_prop P job ''employerId'' = get_prop P rawJob ''userId''
       \<and> (get_prop P rawJob ''jobLocation'' = Inr JUndefined
            \<and> get_prop P rawJob ''location'' = Inr JUndefined
          \<longrightarrow> get_prop P job ''jobLocation'' = Inr JNull)"
proof -
  have ex: "\<exists>x. get_prop P rawJob k = Inr x" for k
    using assms by (rule get_prop_defined)
  obtain a1 where 1: "get_prop P rawJob ''id'' = Inr a1" using ex by blast
  obtain a2 where 2: "get_prop P rawJob ''title'' = Inr a2" using ex by blast
  obtain a3 where 3: "get_prop P rawJob ''description'' = Inr a3" using ex by blast
  obtain a4 where 4: "get_prop P rawJob ''salary'' = Inr a4" using ex by blast
  obtain a5 where 5: "get_prop P rawJob ''status'' = Inr a5" using ex by blast
  obtain a6 where 6: "get_prop P rawJob ''jobLocation'' = Inr a6" using ex by blast
  obtain a7 where 7: "get_prop P rawJob ''location'' = Inr a7" using ex by blast
  obtain a8 where 8: "get_prop P rawJob ''userId'' = Inr a8" using ex by blast
  obtain a9 where 9: "get_prop P rawJob ''employerName'' = Inr a9" using ex by blast
  obtain a10 where 10: "get_prop P rawJob ''createdAt'' = Inr a10" using ex by blast
  obtain a11 where 11: "get_prop P rawJob ''updatedAt'' = Inr a11" using ex by blast
  obtain a12 where 12: "get_prop P rawJob ''_count'' = Inr a12" using ex by blast
  have run: "transformJob P nowISO rawJob =
     Inr (JObj
       [(''id'', a1), (''title'', a2), (''description'', a3), (''salary'', a4), (''status'', a5),
        (''jobLocation'', js_or (js_or a6 a7) JNull),
        (''employerId'', a8),
        (''employerName'', js_or a9 (JStr ''Unknown Employer'')),
        (''createdAt'', js_or a10 (JStr nowISO)),
        (''updatedAt'', js_or a11 (JStr nowISO)),
        (''_count'', a12)])"
    unfolding transformJob_def by (simp only: 1 2 3 4 5 6 7 8 9 10 11 12 bind_Inr)
  show ?thesis
    unfolding run using 6 7 8 by (simp add: js_or_def)
qed

theorem transformJob_employerId_and_location_witness:
  "raw_job_userId \<noteq> JUndefined \<and> raw_job_userId \<noteq> JNull
   \<and> get_prop sample_platform raw_job_userId ''jobLocation'' = Inr JUndefined
   \<and> get_prop sample_platform raw_job_userId ''location'' = Inr JUndefined
   \<and> (\<exists>job. transformJob sample_platform sample_nowISO raw_job_userId = Inr job
         \<and> get_prop sample_platform job ''employerId'' = Inr (JNum 7)
         \<and> get_prop sample_platform job ''jobLocation'' = Inr JNull)"
proof -
  have a: "raw_job_userId \<noteq> JUndefined" and b: "raw_job_userId \<noteq> JNull"
    by (simp_all add: raw_job_userId_def)
  have props:
    "get_prop sample_platform raw_job_userId ''jobLocation'' = Inr JUndefined"
    "get_prop sample_platform raw_job_userId ''location'' = Inr JUndefined"
    "get_prop sample_platform raw_job_userId ''userId'' = Inr (JNum 7)"
    by (simp_all add: raw_job_userId_def)
  show ?thesis
    using transformJob_employerId_and_location [OF a b, of sample_platform sample_nowISO] a b props
    by auto
qed

text \<open>
  Claim C7 as stated fails: an owner identifier that the backend sends under the name
  \<^verbatim>\<open>employerId\<close> is not read, and the normalised job has no \<^verbatim>\<open>employerId\<close>.
\<close>

theorem transformJob_drops_employerId_counterexample:
  "transformJob sample_platform sample_nowISO raw_job_employerId =
     Inr (JObj
       [(''id'', JNum 1), (''title'', JStr ''Cook''), (''description'', JStr ''Line cook''),
        (''salary'', JUndefined), (''status'', JStr ''ACTIVE''), (''jobLocation'', JNull),
        (''employerId'', JUndefined), (''employerName'', JStr ''Unknown Employer''),
        (''createdAt'', JStr sample_nowISO), (''updatedAt'', JStr sample_nowISO),
        (''_count'', JUndefined)])"
  by (simp add: transformJob_def raw_job_employerId_def bind_def js_or_def)

subsection \<open>Classification of errors by \<open>handleApiError\<close>\<close>

text \<open>
  Claim C10, as the code has it. \<^verbatim>\<open>handleApiError\<close> returns a message for every
  input, and the message is non-empty unless the input is a plain \<^verbatim>\<open>Error\<close> whose own
  message is empty. For an \<open>ApiError\<close> with status 401 the storage it leaves is the given
  one without the token key and the cached user key; for every other input the storage is
  unchanged.
\<close>

theorem handleApiError_message_and_frame:
  "((\<forall>name. error \<noteq> Error name []) \<longrightarrow> fst (handleApiError error ls) \<noteq> [])
   \<and> (error = ApiError e \<and> status e = 401
        \<longrightarrow> snd (handleApiError error ls) = ls(TOKEN := None, USER := None))
   \<and> ((\<forall>a. error = ApiError a \<longrightarrow> status a \<noteq> 401) \<longrightarrow> snd (handleApiError error ls) = ls)"
proof (cases error)
  case (ApiError a)
  then show ?thesis
    by (simp add: handleApiError_def storage_remove_def)
next
  case (Error name msg)
  then show ?thesis
    by (simp add: handleApiError_def)
next
  case (Thrown v)
  then show ?thesis
    by (simp add: handleApiError_def)
qed

theorem handleApiError_message_and_frame_witness:
  "handleApiError expired_session both_keys
       = (''Your session has expired. Please log in again.'', [''job_portal_theme'' \<mapsto> quote ''dark''])
   \<and> handleApiError not_found both_keys = (''The requested resource was not found.'', both_keys)
   \<and> snd (handleApiError (Error ''TypeError'' ''Failed to fetch'') both_keys) = both_keys
   \<and> fst (handleApiError (Thrown JNull) both_keys) \<noteq> []"
proof -
  have a: "expired_session = ApiError \<lparr>status = 401, statusText = ''Unauthorized'',
                        message = ''Unauthorized'', data = JObj []\<rparr>
           \<and> status \<lparr>status = 401, statusText = ''Unauthorized'',
                        message = ''Unauthorized'', data = JObj []\<rparr> = 401"
    by (simp add: expired_session_def)
  have b: "\<forall>a. not_found = ApiError a \<longrightarrow> status a \<noteq> 401"
    by (simp add: not_found_def)
  have c: "\<forall>a. Error ''TypeError'' ''Failed to fetch'' = ApiError a \<longrightarrow> status a \<noteq> 401"
    by simp
  have d: "\<forall>name. Thrown JNull \<noteq> Error name []"
    by simp
  have m1: "fst (handleApiError expired_session both_keys)
      = ''Your session has expired. Please log in again.''"
    and m2: "fst (handleApiError not_found both_keys) = ''The requested resource was not found.''"
    by (simp_all add: handleApiError_def expired_session_def not_found_def)
  have rest: "both_keys(TOKEN := None, USER := None) = [''job_portal_theme'' \<mapsto> quote ''dark'']"
    by (rule ext) (simp add: both_keys_def TOKEN_def USER_def)
  have s1: "snd (handleApiError expired_session both_keys) = [''job_portal_theme'' \<mapsto> quote ''dark'']"
    using handleApiError_message_and_frame
        [of expired_session both_keys "\<lparr>status = 401, statusText = ''Unauthorized'',
                        message = ''Unauthorized'', data = JObj []\<rparr>"] a rest
    by simp
  have s2: "snd (handleApiError not_found both_keys) = both_keys"
    using handleApiError_message_and_frame [of not_found both_keys] b by blast
  have s3: "snd (handleApiError (Error ''TypeError'' ''Failed to fetch'') both_keys) = both_keys"
    using handleApiError_message_and_frame [of "Error ''TypeError'' ''Failed to fetch''" both_keys] c
    by blast
  have s4: "fst (handleApiError (Thrown JNull) both_keys) \<noteq> []"
    using handleApiError_message_and_frame [of "Thrown JNull" both_keys] d by blast
  show ?thesis
    using m1 m2 s1 s2 s3 s4 by (simp add: prod_eq_iff)
qed

text \<open>
  Claim C10 as stated fails: a plain \<^verbatim>\<open>Error\<close> with an empty message gets the empty
  string back.
\<close>

theorem handleApiError_empty_message_counterexample:
  "handleApiError (Error ''Error'' []) Map.empty = ([], Map.empty)"
  by (simp add: handleApiError_def)

subsection \<open>Creating an application\<close>

lemma createApplication_throws:
  assumes "applicationsApi_create P E (storage s) jobId d = Inl error"
  shows "createApplication P E jobId d s =
     (Inr \<lparr>success = False, result_message = fst (handleApiError error (storage s)),
            application = JUndefined\<rparr>,
      s\<lparr>storage := snd (handleApiError error (storage s)), loading := False\<rparr>)"
  using assms
  by (simp add: createApplication_def try_finally_def try_catch_def Let_def split: prod.splits)

lemma handleApiError_409:
  "status e = 409 \<Longrightarrow>
   handleApiError (ApiError e) ls =
     (if message e \<noteq> [] then message e
      else ''A conflict occurred. This item may already exist.'', ls)"
  by (simp add: handleApiError_def)

text \<open>
  Claim C2, as the code has it. \<^verbatim>\<open>applicationsApi.create\<close> sends one \<^verbatim>\<open>POST\<close> whose
  body is a \<^verbatim>\<open>FormData\<close> and whose \<^verbatim>\<open>Content-Type\<close> header is left out (the browser
  then sends multipart with its own boundary); the form holds the \<^verbatim>\<open>description\<close>
  field, and a \<^verbatim>\<open>resume\<close> part exactly when a file was supplied. When the backend
  answers with status 409 and an error body whose parsed value is neither \<^verbatim>\<open>null\<close>
  nor \<^verbatim>\<open>undefined\<close> (a body that does not parse counts as \<^verbatim>\<open>{}\<close>, and
  \<^verbatim>\<open>JSON.parse\<close> of a browser returns no \<^verbatim>\<open>undefined\<close>), the caller-facing result is
  \<^verbatim>\<open>{success: false, message}\<close> whose message is the one the pipeline put into the
  classified error (the \<^verbatim>\<open>message\<close> of the error body when it is truthy, else the
  status text), or "A conflict occurred. This item may already exist." when that is empty.
\<close>

theorem createApplication_multipart_and_conflict:
  fixes P :: platform and E :: environment and s :: mutations_state
    and d :: CreateApplicationData and jobId :: int and r :: response
  defines "options \<equiv> post_options P (IsFormData (create_formData d)) None"
  defines "config \<equiv> request_config P (storage s) options"
  defines "errorData \<equiv> (case JSON_parse P (resp_body r) of Inl e \<Rightarrow> JObj [] | Inr v \<Rightarrow> v)"
  shows
    "applicationsApi_create P E (storage s) jobId d
       = bind (case fetch E (baseURL E @ create_endpoint P jobId) config of
                 Rejected error \<Rightarrow> Inl (request_catch error)
               | Resolved answer \<Rightarrow> handleResponse P answer)
           (\<lambda>response. ApiResponse P response Inr)
     \<and> http_method config = ''POST''
     \<and> body config = FormData (create_formData d)
     \<and> headers config ''Content-Type'' = None
     \<and> map_of (create_formData d) ''description'' = Some (Field (description d))
     \<and> ((\<exists>f. (''resume'', Blob f) \<in> set (create_formData d)) = (resume d \<noteq> None))
     \<and> (fetch E (baseURL E @ create_endpoint P jobId) config = Resolved r
          \<and> resp_status r = 409
          \<and> errorData \<noteq> JNull \<and> errorData \<noteq> JUndefined
        \<longrightarrow> (\<exists>msg. get_prop P errorData ''message'' = Inr msg
              \<and> fst (createApplication P E jobId d s)
                  = Inr \<lparr>success = False,
                         result_message =
                           (if ToString P (js_or msg (JStr (resp_statusText r))) \<noteq> []
                            then ToString P (js_or msg (JStr (resp_statusText r)))
                            else ''A conflict occurred. This item may already exist.''),
                         application = JUndefined\<rparr>))"
proof -
  have call: "applicationsApi_create P E (storage s) jobId d
       = bind (request P E (storage s) (create_endpoint P jobId) options)
           (\<lambda>response. ApiResponse P response Inr)"
    by (simp add: applicationsApi_create_def HttpClient_post_def options_def)
  have sent: "applicationsApi_create P E (storage s) jobId d
       = bind (case fetch E (baseURL E @ create_endpoint P jobId) config of
                 Rejected error \<Rightarrow> Inl (request_catch error)
               | Resolved answer \<Rightarrow> handleResponse P answer)
           (\<lambda>response. ApiResponse P response Inr)"
    by (simp add: call request_def config_def)
  have opts: "options = \<lparr>http_method = ''POST'', headers = Map.empty,
                          body = FormData (create_formData d)\<rparr>"
    by (simp add: options_def post_options_def)
  have cfg: "http_method config = ''POST''" "body config = FormData (create_formData d)"
    "headers config ''Content-Type'' = None"
    by (simp_all add: config_def opts request_config_def Let_def)
  have description: "map_of (create_formData d) ''description'' = Some (Field (description d))"
    by (simp add: create_formData_def)
  have resume: "(\<exists>f. (''resume'', Blob f) \<in> set (create_formData d)) = (resume d \<noteq> None)"
    by (cases "resume d") (simp_all add: create_formData_def)
  have conflict: "fst (createApplication P E jobId d s)
              = Inr \<lparr>success = False,
                     result_message =
                       (if ToString P (js_or msg (JStr (resp_statusText r))) \<noteq> []
                        then ToString P (js_or msg (JStr (resp_statusText r)))
                        else ''A conflict occurred. This item may already exist.''),
                     application = JUndefined\<rparr>"
    if f: "fetch E (baseURL E @ create_endpoint P jobId) config = Resolved r"
      and st: "resp_status r = 409" and m: "get_prop P errorData ''message'' = Inr msg"
    for msg
  proof -
    have "\<not> ok r"
      using st by (simp add: ok_def)
    then have "request P E (storage s) (create_endpoint P jobId) options
        = Inl (ApiError \<lparr>status = 409, statusText = resp_statusText r,
                 message = ToString P (js_or msg (JStr (resp_statusText r))),
                 data = errorData\<rparr>)"
      using f st m
      by (simp add: request_def config_def [symmetric] handleResponse_def errorData_def [symmetric])
    then have "applicationsApi_create P E (storage s) jobId d
        = Inl (ApiError \<lparr>status = 409, statusText = resp_statusText r,
                 message = ToString P (js_or msg (JStr (resp_statusText r))),
                 data = errorData\<rparr>)"
      by (simp add: call bind_def)
    from createApplication_throws [OF this] show ?thesis
      by (simp add: handleApiError_409)
  qed
  have answered: "\<exists>msg. get_prop P errorData ''message'' = Inr msg
              \<and> fst (createApplication P E jobId d s)
                  = Inr \<lparr>success = False,
                         result_message =
                           (if ToString P (js_or msg (JStr (resp_statusText r))) \<noteq> []
                            then ToString P (js_or msg (JStr (resp_statusText r)))
                            else ''A conflict occurred. This item may already exist.''),
                         application = JUndefined\<rparr>"
    if f: "fetch E (baseURL E @ create_endpoint P jobId) config = Resolved r"
      and st: "resp_status r = 409" and n: "errorData \<noteq> JNull" and u: "errorData \<noteq> JUndefined"
  proof -
    obtain msg where m: "get_prop P errorData ''message'' = Inr msg"
      using get_prop_defined [OF u n] by blast
    show ?thesis
      using conflict [OF f st m] m by blast
  qed
  show ?thesis
    using sent cfg description resume answered by blast
qed

lemma sample_fetch:
  "t < 10000 \<Longrightarrow> fetch (sample_environment (Responds t r)) url config = Resolved r"
  by (simp add: fetch_def sample_environment_def API_CONFIG_timeout_def)

theorem createApplication_multipart_and_conflict_witness:
  "fetch (sample_environment (conflict_response conflict_body))
       (baseURL (sample_environment (conflict_response conflict_body))
          @ create_endpoint sample_platform 5)
       (request_config sample_platform (storage idle)
          (post_options sample_platform (IsFormData (create_formData sample_application)) None))
     = Resolved \<lparr>resp_status = 409, resp_statusText = ''Conflict'',
                 resp_contentType = Some ''application/json; charset=utf-8'',
                 resp_body = conflict_body\<rparr>
   \<and> JSON_parse sample_platform conflict_body
     = Inr (JObj [(''message'', JStr ''Application already exists''), (''statusCode'', JNum 409)])
   \<and> fst (createApplication sample_platform (sample_environment (conflict_response conflict_body))
            5 sample_application idle)
     = Inr \<lparr>success = False, result_message = ''Application already exists'',
            application = JUndefined\<rparr>"
proof -
  let ?r = "\<lparr>resp_status = 409, resp_statusText = ''Conflict'',
                 resp_contentType = Some ''application/json; charset=utf-8'',
                 resp_body = conflict_body\<rparr>"
  let ?errorData = "JObj [(''message'', JStr ''Application already exists''), (''statusCode'', JNum 409)]"
  have f: "fetch (sample_environment (conflict_response conflict_body))
       (baseURL (sample_environment (conflict_response conflict_body))
          @ create_endpoint sample_platform 5)
       (request_config sample_platform (storage idle)
          (post_options sample_platform (IsFormData (create_formData sample_application)) None))
     = Resolved ?r"
    by (simp add: conflict_response_def sample_fetch)
  have parsed: "JSON_parse sample_platform conflict_body = Inr ?errorData"
    by (simp add: sample_defs)
  note inst =
    createApplication_multipart_and_conflict
      [where P = sample_platform and E = "sample_environment (conflict_response conflict_body)"
         and s = idle and d = sample_application and jobId = 5 and r = ?r]
  have "\<exists>msg. get_prop sample_platform
               (case JSON_parse sample_platform (resp_body ?r) of Inl e \<Rightarrow> JObj [] | Inr v \<Rightarrow> v)
               ''message'' = Inr msg
      \<and> fst (createApplication sample_platform (sample_environment (conflict_response conflict_body))
               5 sample_application idle)
          = Inr \<lparr>success = False,
                 result_message =
                   (if ToString sample_platform (js_or msg (JStr (resp_statusText ?r))) \<noteq> []
                    then ToString sample_platform (js_or msg (JStr (resp_statusText ?r)))
                    else ''A conflict occurred. This item may already exist.''),
                 application = JUndefined\<rparr>"
  proof (rule inst [THEN conjunct2, THEN conjunct2, THEN conjunct2, THEN conjunct2, THEN conjunct2,
                    THEN conjunct2, THEN mp])
    show "fetch (sample_environment (conflict_response conflict_body))
       (baseURL (sample_environment (conflict_response conflict_body))
          @ create_endpoint sample_platform 5)
       (request_config sample_platform (storage idle)
          (post_options sample_platform (IsFormData (create_formData sample_application)) None))
        = Resolved ?r
      \<and> resp_status ?r = 409
      \<and> (case JSON_parse sample_platform (resp_body ?r) of Inl e \<Rightarrow> JObj [] | Inr v \<Rightarrow> v) \<noteq> JNull
      \<and> (case JSON_parse sample_platform (resp_body ?r) of Inl e \<Rightarrow> JObj [] | Inr v \<Rightarrow> v)
          \<noteq> JUndefined"
      using f by (simp add: parsed)
  qed
  then have "fst (createApplication sample_platform (sample_environment (conflict_response conflict_body))
               5 sample_application idle)
      = Inr \<lparr>success = False, result_message = ''Application already exists'',
             application = JUndefined\<rparr>"
    by (auto simp: parsed js_or_def)
  then show ?thesis
    using f parsed by blast
qed

text \<open>
  Claim C2 as stated fails: on a 409 the message is not the fixed text
  "You have already applied to this job.".
\<close>

theorem createApplication_conflict_message_counterexample:
  "fst (createApplication sample_platform (sample_environment (conflict_response ''Conflict''))
          5 sample_application idle)
     = Inr \<lparr>success = False, result_message = ''Conflict'', application = JUndefined\<rparr>
   \<and> ''Conflict'' \<noteq> ''You have already applied to this job.''"
proof -
  have parse: "JSON_parse sample_platform ''Conflict'' = Inl (Error ''SyntaxError'' ''Unexpected token'')"
    by (simp add: sample_defs)
  have "applicationsApi_create sample_platform (sample_environment (conflict_response ''Conflict''))
          (storage idle) 5 sample_application
      = Inl (ApiError \<lparr>status = 409, statusText = ''Conflict'', message = ''Conflict'',
               data = JObj []\<rparr>)"
    by (simp add: applicationsApi_create_def HttpClient_post_def request_def conflict_response_def
        sample_fetch handleResponse_def ok_def parse js_or_def bind_def)
  from createApplication_throws [OF this] show ?thesis
    by (simp add: handleApiError_409)
qed

subsection \<open>Terminal failures of \<open>request\<close>\<close>

lemma request_timeout:
  assumes "fetch E (baseURL E @ endpoint) (request_config P ls options)
             = Rejected (Error ''AbortError'' msg)"
  shows "request P E ls endpoint options
           = Inl (ApiError \<lparr>status = 408, statusText = ''Request Timeout'',
                    message = ''Request timed out'', data = JUndefined\<rparr>)"
  using assms by (simp add: request_def request_catch_def)

lemma fetch_slow_aborts:
  assumes "network E url config = Responds t r \<or> network E url config = Fails t e
           \<or> network E url config = Hangs"
    and "network E url config \<noteq> Hangs \<longrightarrow> API_CONFIG_timeout \<le> t"
  shows "fetch E url config = Rejected (Error ''AbortError'' (AbortError_message E))"
  using assms by (auto simp: fetch_def)

lemma request_network_failure:
  assumes "fetch E (baseURL E @ endpoint) (request_config P ls options) = Rejected error"
  shows "\<exists>e. request P E ls endpoint options = Inl (ApiError e)
           \<and> ((\<forall>a. error \<noteq> ApiError a) \<longrightarrow> status e = 408 \<or> status e = 0)
           \<and> ((\<forall>a. error \<noteq> ApiError a) \<and> (\<forall>msg. error \<noteq> Error ''AbortError'' msg)
                \<longrightarrow> status e = 0)"
  using assms
  by (cases error) (auto simp: request_def request_catch_def)

lemma request_error_status:
  assumes "fetch E (baseURL E @ endpoint) (request_config P ls options) = Resolved r"
    and "\<not> ok r"
    and "JSON_parse P (resp_body r) = Inl err"
  shows "request P E ls endpoint options
           = Inl (ApiError \<lparr>status = resp_status r, statusText = resp_statusText r,
                    message = resp_statusText r, data = JObj []\<rparr>)"
  using assms by (simp add: request_def handleResponse_def js_or_def)

lemma request_success_parse_error:
  assumes "fetch E (baseURL E @ endpoint) (request_config P ls options) = Resolved r"
    and "ok r"
    and "resp_contentType r = Some contentType"
    and "str_includes contentType ''application/json''"
    and "JSON_parse P (resp_body r) = Inl err"
  shows "request P E ls endpoint options = Inl err"
  using assms by (auto simp: request_def handleResponse_def)

text \<open>
  Claim C3. The three cases it lists hold (the lemmas above): a request that has not
  settled by the timeout ends in status 408, a rejected \<^verbatim>\<open>fetch\<close> in status 0, a
  status that is not ok in an \<open>ApiError\<close> with the body's message or the status text.
  What \<^verbatim>\<open>handleResponse\<close> itself throws is not wrapped, however: a response with an ok
  status and a JSON content type whose body does not parse makes \<^verbatim>\<open>request\<close> reject
  with the parser's own \<^verbatim>\<open>SyntaxError\<close>.
\<close>

theorem request_lets_parse_error_through:
  "request sample_platform (sample_environment (json_response ''<html>'')) Map.empty ''/jobs''
     \<lparr>http_method = ''GET'', headers = Map.empty, body = NoBody\<rparr>
   = Inl (Error ''SyntaxError'' ''Unexpected token'')"
  by (simp add: request_def fetch_def sample_environment_def json_response_def
      API_CONFIG_timeout_def handleResponse_def ok_def sample_defs)

end
